theory Spec2Isabelle
  imports Main "HOL-Library.Word"
begin

text \<open>
  The state transitions of the two components of the image generator client:
  the credential gate (\<open>APIKeyInput\<close>, with \<open>App\<close> holding the key) and the
  workspace (\<open>ImageGenerator\<close>) with its two-step generation. Each handler is a
  function from the state before to the state after, together with the requests it
  hands to \<^verbatim>\<open>fetch\<close>; the network is a parameter.
\<close>

section \<open>JavaScript strings\<close>

text \<open>
  A JavaScript string is a sequence of 16-bit code units. String literals of the
  source are ASCII and are written with \<open>js\<close>.
\<close>

type_synonym jsstring = "16 word list"

definition js :: "string \<Rightarrow> jsstring" where
  "js s = map (\<lambda>c. of_char c) s"

text \<open>
  \<^verbatim>\<open>String.prototype.trim\<close> removes WhiteSpace and LineTerminator code points from
  both ends: TAB, LF, VT, FF, CR, SPACE, NBSP, the Unicode space separators
  (U+1680, U+2000..U+200A, U+202F, U+205F, U+3000), LS, PS and the BOM. All of them
  are single code units.
\<close>

definition is_js_whitespace :: "16 word \<Rightarrow> bool" where
  "is_js_whitespace c \<longleftrightarrow>
     c = 0x0009 \<or> c = 0x000A \<or> c = 0x000B \<or> c = 0x000C \<or> c = 0x000D \<or>
     c = 0x0020 \<or> c = 0x00A0 \<or> c = 0x1680 \<or>
     (0x2000 \<le> c \<and> c \<le> 0x200A) \<or>
     c = 0x2028 \<or> c = 0x2029 \<or> c = 0x202F \<or> c = 0x205F \<or> c = 0x3000 \<or>
     c = 0xFEFF"

definition trim :: "jsstring \<Rightarrow> jsstring" where
  "trim s = rev (dropWhile is_js_whitespace (rev (dropWhile is_js_whitespace s)))"

text \<open>Number-to-string for the non-negative integers the program prints.\<close>

definition digit_unit :: "nat \<Rightarrow> 16 word" where
  "digit_unit d = of_nat (48 + d)"

function number_toString :: "nat \<Rightarrow> jsstring" where
  "number_toString n =
     (if n < 10 then [digit_unit n]
      else number_toString (n div 10) @ [digit_unit (n mod 10)])"
  by pat_completeness auto
termination
  by (relation "measure (\<lambda>n. n)") auto

declare number_toString.simps [simp del]

section \<open>JavaScript values, exceptions and property reads\<close>

text \<open>
  The values the program handles without a static type: what \<^verbatim>\<open>response.json()\<close>
  resolves to and what is read out of it. A number is carried by the two observations
  the program can make of it, whether it is zero (ToBoolean) and its ToString text;
  an object by its own properties, the first binding of a key being its value.
\<close>

datatype jsval =
    JUndefined
  | JNull
  | JBool bool
  | JNumber bool jsstring
  | JString jsstring
  | JArray "jsval list"
  | JObject "(jsstring \<times> jsval) list"

text \<open>A thrown value: an \<^verbatim>\<open>Error\<close> instance with its message, or anything else.\<close>

datatype js_thrown = Thrown_Error jsstring | Thrown_Other

record response =
  status :: nat
  statusText :: jsstring
  json :: "js_thrown + jsval"

text \<open>\<^verbatim>\<open>response.ok\<close> of the Fetch API: the status is in the range 200 to 299.\<close>

definition ok :: "response \<Rightarrow> bool" where
  "ok r \<longleftrightarrow> 200 \<le> status r \<and> status r \<le> 299"

datatype content_part = Text_Part jsstring | Image_Url_Part jsstring

text \<open>
  The body of a request is kept as the value handed to \<^verbatim>\<open>JSON.stringify\<close>:
  \<open>Chat_Completion model content max_tokens\<close> with the single user message's
  content, and \<open>Image_Generation model prompt n size\<close>.
\<close>

datatype request_body =
    No_Body
  | Chat_Completion jsstring "content_part list" nat
  | Image_Generation jsstring jsval nat jsstring

record request =
  url :: jsstring
  http_method :: "jsstring option"
  authorization :: jsstring
  content_type :: jsstring
  body :: request_body

text \<open>
  The environment of one run: what each awaited \<^verbatim>\<open>fetch\<close> settles to (\<open>Inl\<close> a
  rejection, \<open>Inr\<close> the response) and the messages of the two TypeErrors the engine
  itself can raise here, for reading a property of \<^verbatim>\<open>undefined\<close> or \<^verbatim>\<open>null\<close> and
  for an object that cannot be converted to a primitive. Every awaited promise
  settles: a request left pending forever is outside this model.
\<close>

record environment =
  fetch :: "request \<Rightarrow> js_thrown + response"
  typeError_read :: "jsval \<Rightarrow> jsstring \<Rightarrow> jsstring"
  typeError_convert :: jsstring

text \<open>
  \<^verbatim>\<open>v[k]\<close> for the property names this program reads (\<^verbatim>\<open>error\<close>, \<^verbatim>\<open>message\<close>,
  \<^verbatim>\<open>choices\<close>, \<^verbatim>\<open>0\<close>, \<^verbatim>\<open>content\<close>, \<^verbatim>\<open>data\<close>, \<^verbatim>\<open>url\<close>): none of them is
  inherited from a prototype, so the read is of an own property, of the first
  element of an array or of the first code unit of a string.
\<close>

fun get_property :: "environment \<Rightarrow> jsval \<Rightarrow> jsstring \<Rightarrow> js_thrown + jsval" where
  "get_property env JUndefined k = Inl (Thrown_Error (typeError_read env JUndefined k))"
| "get_property env JNull k = Inl (Thrown_Error (typeError_read env JNull k))"
| "get_property env (JObject kvs) k =
     Inr (case map_of kvs k of None \<Rightarrow> JUndefined | Some v \<Rightarrow> v)"
| "get_property env (JArray xs) k =
     Inr (if k = js ''0'' then (case xs of [] \<Rightarrow> JUndefined | x # _ \<Rightarrow> x) else JUndefined)"
| "get_property env (JString s) k =
     Inr (if k = js ''0'' then (case s of [] \<Rightarrow> JUndefined | c # _ \<Rightarrow> JString [c])
          else JUndefined)"
| "get_property env (JBool b) k = Inr JUndefined"
| "get_property env (JNumber z t) k = Inr JUndefined"

text \<open>A chain of reads \<^verbatim>\<open>v.k1.k2...\<close>, stopping at the first one that throws.\<close>

fun get_path :: "environment \<Rightarrow> jsval \<Rightarrow> jsstring list \<Rightarrow> js_thrown + jsval" where
  "get_path env v [] = Inr v"
| "get_path env v (k # ks) =
     (case get_property env v k of Inl e \<Rightarrow> Inl e | Inr w \<Rightarrow> get_path env w ks)"

text \<open>\<^verbatim>\<open>d.error?.message\<close>\<close>

definition error_message_of :: "environment \<Rightarrow> jsval \<Rightarrow> js_thrown + jsval" where
  "error_message_of env d =
     (case get_property env d (js ''error'') of
        Inl e \<Rightarrow> Inl e
      | Inr err \<Rightarrow>
          if err = JUndefined \<or> err = JNull then Inr JUndefined
          else get_property env err (js ''message''))"

text \<open>ToBoolean, as used by \<^verbatim>\<open>||\<close>.\<close>

fun truthy :: "jsval \<Rightarrow> bool" where
  "truthy JUndefined = False"
| "truthy JNull = False"
| "truthy (JBool b) = b"
| "truthy (JNumber z t) = (\<not> z)"
| "truthy (JString s) = (s \<noteq> [])"
| "truthy (JArray xs) = True"
| "truthy (JObject kvs) = True"

text \<open>
  ToString. An array is joined with commas, \<^verbatim>\<open>undefined\<close> and \<^verbatim>\<open>null\<close> elements
  giving the empty string. A plain object gives \<^verbatim>\<open>[object Object]\<close>, unless it has
  an own property \<^verbatim>\<open>toString\<close>: that one shadows the inherited method and is not
  callable, and the conversion throws a TypeError.
\<close>

fun ToString :: "environment \<Rightarrow> jsval \<Rightarrow> js_thrown + jsstring"
  and join :: "environment \<Rightarrow> jsval list \<Rightarrow> js_thrown + jsstring" where
  "ToString env JUndefined = Inr (js ''undefined'')"
| "ToString env JNull = Inr (js ''null'')"
| "ToString env (JBool b) = Inr (if b then js ''true'' else js ''false'')"
| "ToString env (JNumber z t) = Inr t"
| "ToString env (JString s) = Inr s"
| "ToString env (JArray xs) = join env xs"
| "ToString env (JObject kvs) =
     (if map_of kvs (js ''toString'') = None then Inr (js ''[object Object]'')
      else Inl (Thrown_Error (typeError_convert env)))"
| "join env [] = Inr []"
| "join env (x # xs) =
     (case (if x = JUndefined \<or> x = JNull then Inr [] else ToString env x) of
        Inl e \<Rightarrow> Inl e
      | Inr s \<Rightarrow>
          if xs = [] then Inr s
          else (case join env xs of Inl e \<Rightarrow> Inl e | Inr t \<Rightarrow> Inr (s @ js '','' @ t)))"

text \<open>
  What \<^verbatim>\<open>throw new Error(v)\<close> throws: the new error, whose message is the string
  form of \<open>v\<close> (empty for \<^verbatim>\<open>undefined\<close>), or the TypeError of the conversion.
\<close>

definition throw_new_Error :: "environment \<Rightarrow> jsval \<Rightarrow> js_thrown" where
  "throw_new_Error env v =
     (if v = JUndefined then Thrown_Error []
      else (case ToString env v of Inl e \<Rightarrow> e | Inr m \<Rightarrow> Thrown_Error m))"

section \<open>The image workspace: \<open>ImageGenerator\<close>\<close>

record gen_state =
  uploadedImages :: "jsstring list"
  prompt :: jsstring
  generatedImage :: jsval
  isGenerating :: bool
  error :: jsstring
  isDragging :: bool

text \<open>The state of a freshly mounted component.\<close>

definition initial_gen_state :: gen_state where
  "initial_gen_state =
     \<lparr>uploadedImages = [], prompt = [], generatedImage = JNull, isGenerating = False,
      error = [], isDragging = False\<rparr>"

text \<open>
  \<^verbatim>\<open>Array.prototype.filter\<close> with a callback of the element and its index; the
  second argument is the index of the head of the list.
\<close>

fun array_filter :: "('a \<Rightarrow> nat \<Rightarrow> bool) \<Rightarrow> nat \<Rightarrow> 'a list \<Rightarrow> 'a list" where
  "array_filter p i [] = []"
| "array_filter p i (x # xs) =
     (if p x i then x # array_filter p (Suc i) xs else array_filter p (Suc i) xs)"

text \<open>
  \<^verbatim>\<open>setUploadedImages(prev => prev.filter((_, i) => i !== index))\<close>. The index is
  an integer; the component passes the position of the clicked thumbnail.
\<close>

definition removeImage :: "int \<Rightarrow> gen_state \<Rightarrow> gen_state" where
  "removeImage index st =
     st\<lparr>uploadedImages := array_filter (\<lambda>_ i. int i \<noteq> index) 0 (uploadedImages st)\<rparr>"

definition refreshGeneration :: "gen_state \<Rightarrow> gen_state" where
  "refreshGeneration st =
     st\<lparr>uploadedImages := [], prompt := [], generatedImage := JNull, error := []\<rparr>"

text \<open>The instruction text of the first request, a template literal.\<close>

definition instruction :: "jsstring list \<Rightarrow> jsstring \<Rightarrow> jsstring" where
  "instruction images p =
     js ''Based on these '' @ number_toString (length images) @
     js '' image(s) and the user's request: '' @ [0x22] @ p @ [0x22] @
     js '', create a detailed and specific prompt for DALL-E 3 image generation. The prompt should be descriptive, artistic, and suitable for creating a high-quality image. Focus on visual elements, style, composition, and artistic details. Consider all the images provided as reference or inspiration.''"

definition bearer :: "jsstring \<Rightarrow> jsstring" where
  "bearer k = js ''Bearer '' @ k"

definition vision_request :: "jsstring \<Rightarrow> jsstring list \<Rightarrow> jsstring \<Rightarrow> request" where
  "vision_request k images p =
     \<lparr>url = js ''https://api.openai.com/v1/chat/completions'',
      http_method = Some (js ''POST''),
      authorization = bearer k,
      content_type = js ''application/json'',
      body = Chat_Completion (js ''gpt-4o'')
               (Text_Part (instruction images p) # map Image_Url_Part images) 1000\<rparr>"

definition image_request :: "jsstring \<Rightarrow> jsval \<Rightarrow> request" where
  "image_request k refinedPrompt =
     \<lparr>url = js ''https://api.openai.com/v1/images/generations'',
      http_method = Some (js ''POST''),
      authorization = bearer k,
      content_type = js ''application/json'',
      body = Image_Generation (js ''dall-e-3'') refinedPrompt 1 (js ''1024x1024'')\<rparr>"

definition vision_fallback :: "response \<Rightarrow> jsstring" where
  "vision_fallback r =
     js ''Vision API error: '' @ number_toString (status r) @ js '' '' @ statusText r"

definition image_fallback :: jsstring where
  "image_fallback = js ''Failed to generate image''"

text \<open>
  Step one, from the first \<^verbatim>\<open>fetch\<close> to \<^verbatim>\<open>refinedPrompt\<close>: the value computed or
  the value thrown, with the requests issued on the way.
\<close>

definition refine_prompt ::
  "environment \<Rightarrow> jsstring \<Rightarrow> gen_state \<Rightarrow> (js_thrown + jsval) \<times> request list" where
  "refine_prompt env k st =
     (let request = vision_request k (uploadedImages st) (prompt st) in
      (case fetch env request of
         Inl e \<Rightarrow> Inl e
       | Inr visionResponse \<Rightarrow>
           if \<not> ok visionResponse then
             (case json visionResponse of
                Inl e \<Rightarrow> Inl e
              | Inr visionErrorData \<Rightarrow>
                  (case error_message_of env visionErrorData of
                     Inl e \<Rightarrow> Inl e
                   | Inr m \<Rightarrow>
                       Inl (throw_new_Error env
                             (if truthy m then m
                              else JString (vision_fallback visionResponse)))))
           else
             (case json visionResponse of
                Inl e \<Rightarrow> Inl e
              | Inr visionData \<Rightarrow>
                  get_path env visionData
                    [js ''choices'', js ''0'', js ''message'', js ''content'']),
       [request]))"

text \<open>Step two, from the second \<^verbatim>\<open>fetch\<close> to the argument of \<^verbatim>\<open>setGeneratedImage\<close>.\<close>

definition synthesize ::
  "environment \<Rightarrow> jsstring \<Rightarrow> jsval \<Rightarrow> (js_thrown + jsval) \<times> request list" where
  "synthesize env k refinedPrompt =
     (let request = image_request k refinedPrompt in
      (case fetch env request of
         Inl e \<Rightarrow> Inl e
       | Inr imageResponse \<Rightarrow>
           if \<not> ok imageResponse then
             (case json imageResponse of
                Inl e \<Rightarrow> Inl e
              | Inr errorData \<Rightarrow>
                  (case error_message_of env errorData of
                     Inl e \<Rightarrow> Inl e
                   | Inr m \<Rightarrow>
                       Inl (throw_new_Error env
                             (if truthy m then m else JString image_fallback))))
           else
             (case json imageResponse of
                Inl e \<Rightarrow> Inl e
              | Inr imageData \<Rightarrow>
                  get_path env imageData [js ''data'', js ''0'', js ''url'']),
       [request]))"

text \<open>The body of the \<^verbatim>\<open>try\<close> block: step two runs only when step one did not throw.\<close>

definition try_block ::
  "environment \<Rightarrow> jsstring \<Rightarrow> gen_state \<Rightarrow> (js_thrown + jsval) \<times> request list" where
  "try_block env k st =
     (case refine_prompt env k st of
        (Inl e, issued1) \<Rightarrow> (Inl e, issued1)
      | (Inr refinedPrompt, issued1) \<Rightarrow>
          (case synthesize env k refinedPrompt of
             (result, issued2) \<Rightarrow> (result, issued1 @ issued2)))"

text \<open>\<^verbatim>\<open>error instanceof Error ? error.message : '...'\<close> of the \<^verbatim>\<open>catch\<close> clause.\<close>

definition catch_message :: "js_thrown \<Rightarrow> jsstring" where
  "catch_message e =
     (case e of
        Thrown_Error m \<Rightarrow> m
      | Thrown_Other \<Rightarrow> js ''Failed to generate image. Please try again.'')"

definition precondition_message :: jsstring where
  "precondition_message = js ''Please upload at least one image and enter a prompt''"

text \<open>
  One run of \<^verbatim>\<open>generateImage\<close> with the component's prop \<^verbatim>\<open>apiKey\<close>: the state
  after it, the requests handed to \<^verbatim>\<open>fetch\<close> in order, and what went to
  \<^verbatim>\<open>console.error\<close>.
\<close>

record generation =
  after :: gen_state
  issued :: "request list"
  logged :: "js_thrown list"

definition generateImage :: "environment \<Rightarrow> jsstring \<Rightarrow> gen_state \<Rightarrow> generation" where
  "generateImage env k st =
     (if length (uploadedImages st) = 0 \<or> trim (prompt st) = [] then
        \<lparr>after = st\<lparr>error := precondition_message\<rparr>, issued = [], logged = []\<rparr>
      else
        (let st1 = st\<lparr>isGenerating := True, error := []\<rparr> in
         (case try_block env k st of
            (Inr u, reqs) \<Rightarrow>
              \<lparr>after = st1\<lparr>generatedImage := u, isGenerating := False\<rparr>,
               issued = reqs, logged = []\<rparr>
          | (Inl e, reqs) \<Rightarrow>
              \<lparr>after = st1\<lparr>error := catch_message e, isGenerating := False\<rparr>,
               issued = reqs, logged = [e]\<rparr>)))"

section \<open>The credential gate: \<open>APIKeyInput\<close> and \<open>App\<close>\<close>

text \<open>The state of \<open>APIKeyInput\<close>; \<open>apiKey\<close> is the text of the input field.\<close>

record key_state =
  apiKey :: jsstring
  isValidating :: bool
  validationError :: jsstring

definition models_request :: "jsstring \<Rightarrow> request" where
  "models_request k =
     \<lparr>url = js ''https://api.openai.com/v1/models'',
      http_method = None,
      authorization = bearer k,
      content_type = js ''application/json'',
      body = No_Body\<rparr>"

definition key_required_message :: jsstring where
  "key_required_message = js ''Please enter your OpenAI API key''"

definition invalid_key_message :: jsstring where
  "invalid_key_message = js ''Invalid API key. Please check and try again.''"

definition network_error_message :: jsstring where
  "network_error_message = js ''Network error. Please check your connection and try again.''"

text \<open>
  One run of \<^verbatim>\<open>validateAPIKey\<close>: the state after it, the requests handed to
  \<^verbatim>\<open>fetch\<close>, and the arguments of the calls of \<^verbatim>\<open>onAPIKeyValidated\<close>.
\<close>

record validation =
  key_after :: key_state
  key_issued :: "request list"
  validated :: "jsstring list"

definition validateAPIKey :: "environment \<Rightarrow> key_state \<Rightarrow> validation" where
  "validateAPIKey env ks =
     (if trim (apiKey ks) = [] then
        \<lparr>key_after = ks\<lparr>validationError := key_required_message\<rparr>,
         key_issued = [], validated = []\<rparr>
      else
        (let ks1 = ks\<lparr>isValidating := True, validationError := []\<rparr>;
             request = models_request (apiKey ks)
         in (case fetch env request of
               Inr resp \<Rightarrow>
                 if ok resp then
                   \<lparr>key_after = ks1\<lparr>isValidating := False\<rparr>,
                    key_issued = [request], validated = [apiKey ks]\<rparr>
                 else
                   \<lparr>key_after = ks1\<lparr>validationError := invalid_key_message,
                                    isValidating := False\<rparr>,
                    key_issued = [request], validated = []\<rparr>
             | Inl e \<Rightarrow>
                 \<lparr>key_after = ks1\<lparr>validationError := network_error_message,
                                  isValidating := False\<rparr>,
                  key_issued = [request], validated = []\<rparr>)))"

text \<open>
  \<open>App\<close> holds the credential (\<^verbatim>\<open>string | null\<close>), sets it in
  \<^verbatim>\<open>handleAPIKeyValidated\<close>, and renders the workspace with it as the prop
  \<^verbatim>\<open>apiKey\<close> unless it is \<^verbatim>\<open>null\<close> or empty.
\<close>

record app_state =
  app_apiKey :: "jsstring option"

definition handleAPIKeyValidated :: "jsstring \<Rightarrow> app_state \<Rightarrow> app_state" where
  "handleAPIKeyValidated key app = app\<lparr>app_apiKey := Some key\<rparr>"

definition handleLogout :: "app_state \<Rightarrow> app_state" where
  "handleLogout app = app\<lparr>app_apiKey := None\<rparr>"

datatype view = Show_APIKeyInput | Show_ImageGenerator jsstring

definition App_view :: "app_state \<Rightarrow> view" where
  "App_view app =
     (case app_apiKey app of
        None \<Rightarrow> Show_APIKeyInput
      | Some k \<Rightarrow> if k = [] then Show_APIKeyInput else Show_ImageGenerator k)"

section \<open>Example inputs\<close>

text \<open>
  Concrete states, responses and environments on which the properties below are
  evaluated: a workspace with three images, a prompt and an earlier result; blank
  inputs; the provider's success replies and four failing responses.
\<close>

definition engine_env :: "(request \<Rightarrow> js_thrown + response) \<Rightarrow> environment" where
  "engine_env f =
     \<lparr>fetch = f,
      typeError_read = (\<lambda>v k. js ''Cannot read properties of null or undefined''),
      typeError_convert = js ''Cannot convert object to primitive value''\<rparr>"

definition three_images :: gen_state where
  "three_images =
     \<lparr>uploadedImages = [js ''data:image/png;base64,AA'', js ''data:image/png;base64,BB'',
                        js ''data:image/png;base64,CC''],
      prompt = js ''a cat'', generatedImage = JString (js ''https://old.example/1.png''),
      isGenerating = False, error = js ''stale'', isDragging = False\<rparr>"

definition blank_prompt :: gen_state where
  "blank_prompt = three_images\<lparr>prompt := [0x0020, 0x0009, 0x00A0, 0x000A]\<rparr>"

definition blank_key :: key_state where
  "blank_key = \<lparr>apiKey = [0x0020, 0x0009, 0x0020], isValidating = False, validationError = []\<rparr>"

definition padded_key :: key_state where
  "padded_key = \<lparr>apiKey = js '' sk-test '', isValidating = False, validationError = []\<rparr>"

definition ok_response :: "jsval \<Rightarrow> response" where
  "ok_response d = \<lparr>status = 200, statusText = js ''OK'', json = Inr d\<rparr>"

definition chat_reply :: jsval where
  "chat_reply =
     JObject [(js ''choices'',
       JArray [JObject [(js ''message'',
         JObject [(js ''role'', JString (js ''assistant'')),
                  (js ''content'', JString (js ''A watercolour cat''))])]])]"

definition image_reply :: jsval where
  "image_reply =
     JObject [(js ''created'', JNumber False (js ''1700000000'')),
              (js ''data'', JArray [JObject [(js ''url'', JString (js ''https://img.example/new.png''))]])]"

definition env_all_ok :: environment where
  "env_all_ok =
     engine_env (\<lambda>q. case body q of
        No_Body \<Rightarrow> Inr (ok_response (JObject []))
      | Chat_Completion _ _ _ \<Rightarrow> Inr (ok_response chat_reply)
      | Image_Generation _ _ _ _ \<Rightarrow> Inr (ok_response image_reply))"

definition two_step_env :: "response \<Rightarrow> response \<Rightarrow> environment" where
  "two_step_env r1 r2 =
     engine_env (\<lambda>q. case body q of
        No_Body \<Rightarrow> Inr (ok_response (JObject []))
      | Chat_Completion _ _ _ \<Rightarrow> Inr r1
      | Image_Generation _ _ _ _ \<Rightarrow> Inr r2)"

definition bad_gateway :: response where
  "bad_gateway =
     \<lparr>status = 502, statusText = js ''Bad Gateway'',
      json = Inl (Thrown_Error (js ''Unexpected token < in JSON at position 0''))\<rparr>"

definition unauthorized :: response where
  "unauthorized =
     \<lparr>status = 401, statusText = js ''Unauthorized'',
      json = Inr (JObject [(js ''error'',
               JObject [(js ''message'', JString (js ''Incorrect API key provided'')),
                        (js ''type'', JString (js ''invalid_request_error''))])])\<rparr>"

definition server_error :: response where
  "server_error =
     \<lparr>status = 500, statusText = js ''Internal Server Error'', json = Inr (JObject [])\<rparr>"

definition rejected_prompt :: response where
  "rejected_prompt =
     \<lparr>status = 400, statusText = js ''Bad Request'',
      json = Inr (JObject [(js ''error'',
               JObject [(js ''code'', JString (js ''content_policy_violation'')),
                        (js ''message'', JString (js ''Your request was rejected''))])])\<rparr>"

definition env_bad_gateway :: environment where
  "env_bad_gateway = two_step_env bad_gateway (ok_response image_reply)"

definition env_unauthorized :: environment where
  "env_unauthorized = two_step_env unauthorized (ok_response image_reply)"

definition env_server_error :: environment where
  "env_server_error = two_step_env server_error (ok_response image_reply)"

definition env_rejected_prompt :: environment where
  "env_rejected_prompt = two_step_env (ok_response chat_reply) rejected_prompt"

definition env_thrown_other :: environment where
  "env_thrown_other = engine_env (\<lambda>q. Inl Thrown_Other)"

definition env_offline :: environment where
  "env_offline = engine_env (\<lambda>q. Inl (Thrown_Error (js ''Failed to fetch'')))"

definition empty_message_error :: response where
  "empty_message_error =
     \<lparr>status = 400, statusText = js ''Bad Request'',
      json = Inr (JObject [(js ''error'', JObject [(js ''message'', JArray [])])])\<rparr>"

definition env_vision_empty_message :: environment where
  "env_vision_empty_message = two_step_env empty_message_error (ok_response image_reply)"

definition env_image_empty_message :: environment where
  "env_image_empty_message = two_step_env (ok_response chat_reply) empty_message_error"

definition env_image_no_data :: environment where
  "env_image_no_data = two_step_env (ok_response chat_reply) (ok_response (JObject []))"

section \<open>Removing an uploaded image\<close>

lemma array_filter_all:
  "(\<And>j x. i \<le> j \<Longrightarrow> j < i + length xs \<Longrightarrow> p x j) \<Longrightarrow> array_filter p i xs = xs"
proof (induction xs arbitrary: i)
  case Nil
  then show ?case by simp
next
  case (Cons a xs)
  have "p a i" using Cons.prems[of i a] by simp
  moreover have "array_filter p (Suc i) xs = xs"
    using Cons.prems by (intro Cons.IH) simp_all
  ultimately show ?case by simp
qed

lemma array_filter_skip:
  "i \<le> j \<Longrightarrow> j < i + length xs \<Longrightarrow>
   array_filter (\<lambda>_ n. int n \<noteq> int j) i xs = take (j - i) xs @ drop (Suc (j - i)) xs"
proof (induction xs arbitrary: i)
  case Nil
  then show ?case by simp
next
  case (Cons a xs)
  show ?case
  proof (cases "i = j")
    case True
    have "array_filter (\<lambda>_ n. int n \<noteq> int j) (Suc j) xs = xs"
      by (rule array_filter_all) simp
    with True show ?thesis by simp
  next
    case False
    with Cons.prems have lt: "Suc i \<le> j" "j < Suc i + length xs" by simp_all
    have "j - i = Suc (j - Suc i)" using lt by simp
    with Cons.IH[OF lt] False show ?thesis by simp
  qed
qed

text \<open>
  C7. Removing the image at a valid index \<open>i\<close> of a sequence of length \<open>n\<close> leaves
  \<open>n - 1\<close> images: those before \<open>i\<close> followed by those after \<open>i\<close>, in their
  original order.
\<close>

theorem removeImage_valid_index:
  assumes "0 \<le> index" and "index < int (length (uploadedImages st))"
  shows "length (uploadedImages (removeImage index st)) = length (uploadedImages st) - 1 \<and>
         uploadedImages (removeImage index st) =
           take (nat index) (uploadedImages st) @ drop (Suc (nat index)) (uploadedImages st)"
proof -
  have idx: "index = int (nat index)" and lt: "nat index < length (uploadedImages st)"
    using assms by simp_all
  have eq: "uploadedImages (removeImage index st) =
      take (nat index) (uploadedImages st) @ drop (Suc (nat index)) (uploadedImages st)"
    unfolding removeImage_def using array_filter_skip[of 0 "nat index" "uploadedImages st"] lt idx
    by simp
  have "length (take (nat index) (uploadedImages st) @ drop (Suc (nat index)) (uploadedImages st))
        = length (uploadedImages st) - 1"
    using lt by simp
  with eq show ?thesis by simp
qed

theorem removeImage_valid_index_witness:
  "(0::int) \<le> 1 \<and> 1 < int (length (uploadedImages three_images)) \<and>
   length (uploadedImages (removeImage 1 three_images)) = 2 \<and>
   uploadedImages (removeImage 1 three_images) =
     [js ''data:image/png;base64,AA'', js ''data:image/png;base64,CC'']"
proof -
  have a: "(0::int) \<le> 1" by simp
  have b: "1 < int (length (uploadedImages three_images))"
    by (simp add: three_images_def)
  show ?thesis
    using a b removeImage_valid_index [OF a b]
    by (simp add: three_images_def)
qed

text \<open>
  C9. For an index outside the valid range (negative, or at least the length of the
  sequence), removing leaves the sequence, and the whole state, unchanged.
\<close>

theorem removeImage_out_of_range:
  assumes "index < 0 \<or> int (length (uploadedImages st)) \<le> index"
  shows "removeImage index st = st"
proof -
  have "array_filter (\<lambda>_ i. int i \<noteq> index) 0 (uploadedImages st) = uploadedImages st"
    using assms by (intro array_filter_all) auto
  then show ?thesis by (simp add: removeImage_def)
qed

theorem removeImage_out_of_range_witness:
  "int (length (uploadedImages three_images)) \<le> 3 \<and>
   removeImage 3 three_images = three_images \<and>
   removeImage (- 1) three_images = three_images"
proof -
  have a: "(- 1) < (0::int) \<or> int (length (uploadedImages three_images)) \<le> - 1"
    by simp
  have b: "(3::int) < 0 \<or> int (length (uploadedImages three_images)) \<le> 3"
    by (simp add: three_images_def)
  show ?thesis
    using removeImage_out_of_range [OF a] removeImage_out_of_range [OF b]
    by (simp add: three_images_def)
qed

section \<open>Reset\<close>

text \<open>
  C6. Reset sets the uploaded images to the empty sequence, the prompt to the empty
  string, the generated image to absent and the error message to empty, in one
  state transition; the two flags are not touched.
\<close>

theorem refreshGeneration_clears_all:
  "uploadedImages (refreshGeneration st) = [] \<and>
   prompt (refreshGeneration st) = [] \<and>
   generatedImage (refreshGeneration st) = JNull \<and>
   error (refreshGeneration st) = [] \<and>
   isGenerating (refreshGeneration st) = isGenerating st \<and>
   isDragging (refreshGeneration st) = isDragging st"
  by (simp add: refreshGeneration_def)

section \<open>Missing input\<close>

text \<open>
  C2. With no uploaded image, or with a prompt that is empty after trimming,
  \<^verbatim>\<open>generateImage\<close> sets the validation message and returns: no request is
  issued, and uploaded images, prompt and generated image are as before (only the
  error message changes).
\<close>

theorem generateImage_precondition_violated:
  assumes "length (uploadedImages st) = 0 \<or> trim (prompt st) = []"
  shows "issued (generateImage env k st) = [] \<and>
         error (after (generateImage env k st)) = precondition_message \<and>
         uploadedImages (after (generateImage env k st)) = uploadedImages st \<and>
         prompt (after (generateImage env k st)) = prompt st \<and>
         generatedImage (after (generateImage env k st)) = generatedImage st \<and>
         after (generateImage env k st) = st\<lparr>error := precondition_message\<rparr>"
  using assms by (simp add: generateImage_def)

theorem generateImage_precondition_violated_witness:
  "length (uploadedImages initial_gen_state) = 0 \<and>
   issued (generateImage env_all_ok (js ''sk-test'') initial_gen_state) = [] \<and>
   error (after (generateImage env_all_ok (js ''sk-test'') initial_gen_state)) = precondition_message \<and>
   length (uploadedImages blank_prompt) = 3 \<and>
   trim (prompt blank_prompt) = [] \<and>
   issued (generateImage env_all_ok (js ''sk-test'') blank_prompt) = [] \<and>
   after (generateImage env_all_ok (js ''sk-test'') blank_prompt) =
     blank_prompt\<lparr>error := precondition_message\<rparr>"
proof -
  have a: "length (uploadedImages initial_gen_state) = 0"
    by (simp add: initial_gen_state_def)
  have b: "trim (prompt blank_prompt) = []"
    by (simp add: blank_prompt_def trim_def is_js_whitespace_def)
  have c: "length (uploadedImages blank_prompt) = 3"
    by (simp add: blank_prompt_def three_images_def)
  show ?thesis
    using a b c
      generateImage_precondition_violated [of initial_gen_state env_all_ok "js ''sk-test''"]
      generateImage_precondition_violated [of blank_prompt env_all_ok "js ''sk-test''"]
    by simp
qed

text \<open>
  C8. With a key that is empty after trimming, \<^verbatim>\<open>validateAPIKey\<close> issues no
  request, sets the input-required message, and does not call
  \<^verbatim>\<open>onAPIKeyValidated\<close>: the credential held by \<open>App\<close> stays as it was.
\<close>

theorem validateAPIKey_empty_key:
  assumes "trim (apiKey ks) = []"
  shows "key_issued (validateAPIKey env ks) = [] \<and>
         validated (validateAPIKey env ks) = [] \<and>
         key_after (validateAPIKey env ks) = ks\<lparr>validationError := key_required_message\<rparr> \<and>
         fold handleAPIKeyValidated (validated (validateAPIKey env ks)) app = app"
  using assms by (simp add: validateAPIKey_def)

theorem validateAPIKey_empty_key_witness:
  "trim (apiKey blank_key) = [] \<and>
   key_issued (validateAPIKey env_all_ok blank_key) = [] \<and>
   validated (validateAPIKey env_all_ok blank_key) = [] \<and>
   validationError (key_after (validateAPIKey env_all_ok blank_key)) = key_required_message \<and>
   App_view (fold handleAPIKeyValidated (validated (validateAPIKey env_all_ok blank_key))
              \<lparr>app_apiKey = None\<rparr>) = Show_APIKeyInput"
proof -
  have a: "trim (apiKey blank_key) = []"
    by (simp add: blank_key_def trim_def is_js_whitespace_def)
  show ?thesis
    using a validateAPIKey_empty_key [OF a, of env_all_ok "\<lparr>app_apiKey = None\<rparr>"]
    by (simp add: App_view_def)
qed

section \<open>The requests of one generation\<close>

lemma trim_Nil: "trim [] = []"
  by (simp add: trim_def)

lemma issued_refine_prompt:
  "snd (refine_prompt env k st) = [vision_request k (uploadedImages st) (prompt st)]"
  by (simp add: refine_prompt_def Let_def)

lemma issued_synthesize: "snd (synthesize env k p) = [image_request k p]"
  by (simp add: synthesize_def Let_def)

lemma try_block_unfold:
  "try_block env k st =
     (case fst (refine_prompt env k st) of
        Inl e \<Rightarrow> (Inl e, [vision_request k (uploadedImages st) (prompt st)])
      | Inr p \<Rightarrow>
          (fst (synthesize env k p),
           [vision_request k (uploadedImages st) (prompt st), image_request k p]))"
proof -
  obtain a b where r: "refine_prompt env k st = (a, b)"
    by (cases "refine_prompt env k st")
  then have b: "b = [vision_request k (uploadedImages st) (prompt st)]"
    using issued_refine_prompt [of env k st] by simp
  show ?thesis
  proof (cases a)
    case (Inl e)
    with r b show ?thesis by (simp add: try_block_def)
  next
    case (Inr p)
    obtain c d where s: "synthesize env k p = (c, d)"
      by (cases "synthesize env k p")
    then have "d = [image_request k p]"
      using issued_synthesize [of env k p] by simp
    with r b Inr s show ?thesis by (simp add: try_block_def)
  qed
qed

lemma issued_try_block:
  "snd (try_block env k st) = [vision_request k (uploadedImages st) (prompt st)] \<or>
   (\<exists>p. snd (try_block env k st) =
      [vision_request k (uploadedImages st) (prompt st), image_request k p])"
  by (cases "fst (refine_prompt env k st)") (auto simp: try_block_unfold)

lemma issued_generateImage:
  "issued (generateImage env k st) = (if length (uploadedImages st) = 0 \<or> trim (prompt st) = [] then [] else snd (try_block env k st))"
  by (simp add: generateImage_def Let_def split: prod.split sum.split)

lemma authorization_generateImage:
  "q \<in> set (issued (generateImage env k st)) \<Longrightarrow> authorization q = js ''Bearer '' @ k"
  using issued_try_block [of env k st]
  by (auto simp: issued_generateImage vision_request_def image_request_def bearer_def
      split: if_splits)

section \<open>The credential that is propagated\<close>

text \<open>
  C10. When validation succeeds, \<^verbatim>\<open>onAPIKeyValidated\<close> is called once with the
  text of the input field as entered; the validation request carries it after
  \<^verbatim>\<open>Bearer \<close>, \<open>App\<close> stores it and hands it to the workspace, and every request
  of a generation carries it after \<^verbatim>\<open>Bearer \<close>. The key is trimmed only in the
  emptiness test.
\<close>

theorem validated_key_is_verbatim:
  assumes "trim (apiKey ks) \<noteq> []"
    and "fetch env (models_request (apiKey ks)) = Inr r"
    and "ok r"
  shows "validated (validateAPIKey env ks) = [apiKey ks] \<and>
         map authorization (key_issued (validateAPIKey env ks)) = [js ''Bearer '' @ apiKey ks] \<and>
         fold handleAPIKeyValidated (validated (validateAPIKey env ks)) app =
           \<lparr>app_apiKey = Some (apiKey ks)\<rparr> \<and>
         App_view (fold handleAPIKeyValidated (validated (validateAPIKey env ks)) app) =
           Show_ImageGenerator (apiKey ks) \<and>
         (\<forall>env' st. \<forall>q \<in> set (issued (generateImage env' (apiKey ks) st)).
            authorization q = js ''Bearer '' @ apiKey ks)"
proof -
  have ne: "apiKey ks \<noteq> []"
    using assms(1) trim_Nil by auto
  have v: "validated (validateAPIKey env ks) = [apiKey ks]"
    using assms by (simp add: validateAPIKey_def Let_def)
  have i: "key_issued (validateAPIKey env ks) = [models_request (apiKey ks)]"
    using assms by (simp add: validateAPIKey_def Let_def)
  have a: "fold handleAPIKeyValidated [apiKey ks] app = \<lparr>app_apiKey = Some (apiKey ks)\<rparr>"
    by (simp add: handleAPIKeyValidated_def)
  show ?thesis
    using ne v i a authorization_generateImage
    by (simp add: App_view_def models_request_def bearer_def)
qed

theorem validated_key_is_verbatim_witness:
  "trim (apiKey padded_key) = js ''sk-test'' \<and>
   validated (validateAPIKey env_all_ok padded_key) = [js '' sk-test ''] \<and>
   map authorization (key_issued (validateAPIKey env_all_ok padded_key)) = [js ''Bearer  sk-test ''] \<and>
   App_view (fold handleAPIKeyValidated (validated (validateAPIKey env_all_ok padded_key))
              \<lparr>app_apiKey = None\<rparr>) = Show_ImageGenerator (js '' sk-test '') \<and>
   map authorization (issued (generateImage env_all_ok (js '' sk-test '') three_images)) =
     [js ''Bearer  sk-test '', js ''Bearer  sk-test '']"
proof -
  have t: "trim (apiKey padded_key) = js ''sk-test''"
    by (simp add: padded_key_def trim_def js_def is_js_whitespace_def)
  have k: "apiKey padded_key = js '' sk-test ''"
    by (simp add: padded_key_def)
  have ne: "trim (apiKey padded_key) \<noteq> []"
    by (simp add: t js_def)
  have f: "fetch env_all_ok (models_request (apiKey padded_key)) = Inr (ok_response (JObject []))"
    by (simp add: env_all_ok_def engine_env_def models_request_def)
  have o: "ok (ok_response (JObject []))"
    by (simp add: ok_def ok_response_def)
  have b: "js ''Bearer '' @ js '' sk-test '' = js ''Bearer  sk-test ''"
    by (simp add: js_def)
  have g: "map authorization (issued (generateImage env_all_ok (js '' sk-test '') three_images)) =
     [js ''Bearer  sk-test '', js ''Bearer  sk-test '']"
    using b
    by (simp add: generateImage_def try_block_def refine_prompt_def synthesize_def
        env_all_ok_def engine_env_def vision_request_def image_request_def ok_response_def
        ok_def chat_reply_def image_reply_def three_images_def trim_def is_js_whitespace_def
        bearer_def Let_def js_def)
  note th = validated_key_is_verbatim [OF ne f o, of "\<lparr>app_apiKey = None\<rparr>", unfolded k b]
  have c1: "validated (validateAPIKey env_all_ok padded_key) = [js '' sk-test '']"
    using th by (rule conjunct1)
  have c2: "map authorization (key_issued (validateAPIKey env_all_ok padded_key)) =
      [js ''Bearer  sk-test '']"
    using th [THEN conjunct2] by (rule conjunct1)
  have c3: "App_view (fold handleAPIKeyValidated (validated (validateAPIKey env_all_ok padded_key))
              \<lparr>app_apiKey = None\<rparr>) = Show_ImageGenerator (js '' sk-test '')"
    using th [THEN conjunct2, THEN conjunct2, THEN conjunct2] by (rule conjunct1)
  from t c1 c2 c3 g show ?thesis
    by (intro conjI)
qed

section \<open>The two steps of a generation\<close>

lemma fst_refine_prompt_failed:
  assumes "fetch env (vision_request k (uploadedImages st) (prompt st)) = Inr r" and "\<not> ok r"
  shows "fst (refine_prompt env k st) =
     (case json r of
        Inl e \<Rightarrow> Inl e
      | Inr d \<Rightarrow>
          (case error_message_of env d of
             Inl e \<Rightarrow> Inl e
           | Inr m \<Rightarrow>
               Inl (throw_new_Error env (if truthy m then m else JString (vision_fallback r)))))"
  using assms by (simp add: refine_prompt_def Let_def)

lemma fst_refine_prompt_ok:
  assumes "fetch env (vision_request k (uploadedImages st) (prompt st)) = Inr r" and "ok r"
  shows "fst (refine_prompt env k st) =
     (case json r of
        Inl e \<Rightarrow> Inl e
      | Inr d \<Rightarrow> get_path env d [js ''choices'', js ''0'', js ''message'', js ''content''])"
  using assms by (simp add: refine_prompt_def Let_def)

lemma fst_synthesize_failed:
  assumes "fetch env (image_request k p) = Inr r" and "\<not> ok r"
  shows "fst (synthesize env k p) =
     (case json r of
        Inl e \<Rightarrow> Inl e
      | Inr d \<Rightarrow>
          (case error_message_of env d of
             Inl e \<Rightarrow> Inl e
           | Inr m \<Rightarrow>
               Inl (throw_new_Error env (if truthy m then m else JString image_fallback))))"
  using assms by (simp add: synthesize_def Let_def)

lemma fst_synthesize_ok:
  assumes "fetch env (image_request k p) = Inr r" and "ok r"
  shows "fst (synthesize env k p) =
     (case json r of
        Inl e \<Rightarrow> Inl e
      | Inr d \<Rightarrow> get_path env d [js ''data'', js ''0'', js ''url''])"
  using assms by (simp add: synthesize_def Let_def)

lemma throw_new_Error_truthy:
  "truthy m \<Longrightarrow> throw_new_Error env m = (case ToString env m of Inl e \<Rightarrow> e | Inr t \<Rightarrow> Thrown_Error t)"
  by (cases m) (simp_all add: throw_new_Error_def)

lemma throw_new_Error_string: "throw_new_Error env (JString s) = Thrown_Error s"
  by (simp add: throw_new_Error_def)

lemma catch_message_Error: "catch_message (Thrown_Error m) = m"
  by (simp add: catch_message_def)

lemma generateImage_thrown:
  assumes "length (uploadedImages st) \<noteq> 0" and "trim (prompt st) \<noteq> []"
    and "fst (try_block env k st) = Inl e"
  shows "generateImage env k st =
     \<lparr>after = st\<lparr>isGenerating := False, error := catch_message e\<rparr>,
      issued = snd (try_block env k st), logged = [e]\<rparr>"
  using assms by (cases "try_block env k st") (simp add: generateImage_def Let_def)

lemma generateImage_value:
  assumes "length (uploadedImages st) \<noteq> 0" and "trim (prompt st) \<noteq> []"
    and "fst (try_block env k st) = Inr u"
  shows "generateImage env k st =
     \<lparr>after = st\<lparr>isGenerating := False, error := [], generatedImage := u\<rparr>,
      issued = snd (try_block env k st), logged = []\<rparr>"
  using assms by (cases "try_block env k st") (simp add: generateImage_def Let_def)

lemma try_block_refine_thrown:
  "fst (refine_prompt env k st) = Inl e \<Longrightarrow>
   try_block env k st = (Inl e, [vision_request k (uploadedImages st) (prompt st)])"
  by (simp add: try_block_unfold)

lemma try_block_refined:
  "fst (refine_prompt env k st) = Inr p \<Longrightarrow>
   try_block env k st =
     (fst (synthesize env k p),
      [vision_request k (uploadedImages st) (prompt st), image_request k p])"
  by (simp add: try_block_unfold)

lemma three_images_precondition:
  "length (uploadedImages three_images) \<noteq> 0" "trim (prompt three_images) \<noteq> []"
  by (simp_all add: three_images_def trim_def js_def is_js_whitespace_def)

lemma fetch_two_step_env:
  "fetch (two_step_env r1 r2) (vision_request k images p) = Inr r1"
  "fetch (two_step_env r1 r2) (image_request k v) = Inr r2"
  by (simp_all add: two_step_env_def engine_env_def vision_request_def image_request_def)

section \<open>Failure of the refinement step\<close>

text \<open>
  C1, as amended. When the precondition holds and the chat-completion call returns a
  non-success status, the image-generation call is never issued, the flag is cleared
  and the generated image is as before. If the error body can be read (it parses as
  JSON, and reading \<^verbatim>\<open>error?.message\<close> and converting it to a string do not
  throw), the error shown is the provider's message when it is truthy and the
  synthesized \<^verbatim>\<open>Vision API error: <status> <statusText>\<close> otherwise. If reading
  the body throws, the error shown is the message of that exception.
\<close>

theorem refinement_failure_stops_the_chain:
  assumes "length (uploadedImages st) \<noteq> 0" and "trim (prompt st) \<noteq> []"
    and "fetch env (vision_request k (uploadedImages st) (prompt st)) = Inr r"
    and "\<not> ok r"
  shows "issued (generateImage env k st) = [vision_request k (uploadedImages st) (prompt st)] \<and>
         isGenerating (after (generateImage env k st)) = False \<and>
         generatedImage (after (generateImage env k st)) = generatedImage st \<and>
         (\<forall>d m t. json r = Inr d \<and> error_message_of env d = Inr m \<and> truthy m \<and>
                  ToString env m = Inr t \<longrightarrow>
            error (after (generateImage env k st)) = t) \<and>
         (\<forall>d m. json r = Inr d \<and> error_message_of env d = Inr m \<and> \<not> truthy m \<longrightarrow>
            error (after (generateImage env k st)) = vision_fallback r) \<and>
         (\<forall>e. json r = Inl e \<longrightarrow> error (after (generateImage env k st)) = catch_message e) \<and>
         (\<forall>d e. json r = Inr d \<and> error_message_of env d = Inl e \<longrightarrow>
            error (after (generateImage env k st)) = catch_message e) \<and>
         (\<forall>d m e. json r = Inr d \<and> error_message_of env d = Inr m \<and> truthy m \<and>
                  ToString env m = Inl e \<longrightarrow>
            error (after (generateImage env k st)) = catch_message e)"
proof -
  let ?g = "generateImage env k st"
  note rp = fst_refine_prompt_failed [OF assms(3,4)]
  obtain x where x: "fst (refine_prompt env k st) = Inl x"
    using rp by (auto split: sum.splits)
  have g: "?g = \<lparr>after = st\<lparr>isGenerating := False, error := catch_message x\<rparr>,
      issued = [vision_request k (uploadedImages st) (prompt st)], logged = [x]\<rparr>"
  proof -
    note tb = try_block_refine_thrown [OF x]
    have "fst (try_block env k st) = Inl x" by (simp add: tb)
    from generateImage_thrown [OF assms(1,2) this] show ?thesis by (simp add: tb)
  qed
  have 1: "error (after ?g) = t"
    if "json r = Inr d" "error_message_of env d = Inr m" "truthy m" "ToString env m = Inr t"
    for d m t
    using that rp x g by (simp add: throw_new_Error_truthy catch_message_Error)
  have 2: "error (after ?g) = vision_fallback r"
    if "json r = Inr d" "error_message_of env d = Inr m" "\<not> truthy m" for d m
    using that rp x g by (simp add: throw_new_Error_string catch_message_Error)
  have 3: "error (after ?g) = catch_message e" if "json r = Inl e" for e
    using that rp x g by simp
  have 4: "error (after ?g) = catch_message e"
    if "json r = Inr d" "error_message_of env d = Inl e" for d e
    using that rp x g by simp
  have 5: "error (after ?g) = catch_message e"
    if "json r = Inr d" "error_message_of env d = Inr m" "truthy m" "ToString env m = Inl e"
    for d m e
    using that rp x g by (simp add: throw_new_Error_truthy)
  from g 1 2 3 4 5 show ?thesis
    by (intro conjI allI impI) (simp, simp, simp, blast+)
qed


theorem refinement_failure_stops_the_chain_witness:
  "length (uploadedImages three_images) \<noteq> 0 \<and>
   trim (prompt three_images) \<noteq> [] \<and>
   \<not> ok unauthorized \<and> \<not> ok server_error \<and> \<not> ok bad_gateway \<and>
   issued (generateImage env_unauthorized (js ''sk-test'') three_images) =
     [vision_request (js ''sk-test'') (uploadedImages three_images) (prompt three_images)] \<and>
   error (after (generateImage env_unauthorized (js ''sk-test'') three_images)) =
     js ''Incorrect API key provided'' \<and>
   issued (generateImage env_server_error (js ''sk-test'') three_images) =
     [vision_request (js ''sk-test'') (uploadedImages three_images) (prompt three_images)] \<and>
   error (after (generateImage env_server_error (js ''sk-test'') three_images)) =
     js ''Vision API error: 500 Internal Server Error'' \<and>
   issued (generateImage env_bad_gateway (js ''sk-test'') three_images) =
     [vision_request (js ''sk-test'') (uploadedImages three_images) (prompt three_images)] \<and>
   error (after (generateImage env_bad_gateway (js ''sk-test'') three_images)) =
     js ''Unexpected token < in JSON at position 0''"
proof -
  let ?req = "vision_request (js ''sk-test'') (uploadedImages three_images) (prompt three_images)"
  have n: "\<not> ok unauthorized" "\<not> ok server_error" "\<not> ok bad_gateway"
    by (simp_all add: ok_def unauthorized_def server_error_def bad_gateway_def)
  have f1: "fetch env_unauthorized ?req = Inr unauthorized"
    by (simp add: env_unauthorized_def fetch_two_step_env)
  have f2: "fetch env_server_error ?req = Inr server_error"
    by (simp add: env_server_error_def fetch_two_step_env)
  have f3: "fetch env_bad_gateway ?req = Inr bad_gateway"
    by (simp add: env_bad_gateway_def fetch_two_step_env)
  note t1 = refinement_failure_stops_the_chain [OF three_images_precondition f1 n(1)]
  note t2 = refinement_failure_stops_the_chain [OF three_images_precondition f2 n(2)]
  note t3 = refinement_failure_stops_the_chain [OF three_images_precondition f3 n(3)]
  have m1: "json unauthorized = Inr (JObject [(js ''error'',
               JObject [(js ''message'', JString (js ''Incorrect API key provided'')),
                        (js ''type'', JString (js ''invalid_request_error''))])]) \<and>
      error_message_of env_unauthorized (JObject [(js ''error'',
               JObject [(js ''message'', JString (js ''Incorrect API key provided'')),
                        (js ''type'', JString (js ''invalid_request_error''))])]) =
        Inr (JString (js ''Incorrect API key provided'')) \<and>
      truthy (JString (js ''Incorrect API key provided'')) \<and>
      ToString env_unauthorized (JString (js ''Incorrect API key provided'')) =
        Inr (js ''Incorrect API key provided'')"
    by (simp add: unauthorized_def error_message_of_def js_def)
  have e1: "error (after (generateImage env_unauthorized (js ''sk-test'') three_images)) =
     js ''Incorrect API key provided''"
    using t1 m1 by blast
  have m2: "json server_error = Inr (JObject []) \<and>
      error_message_of env_server_error (JObject []) = Inr JUndefined \<and> \<not> truthy JUndefined"
    by (simp add: server_error_def error_message_of_def)
  have "error (after (generateImage env_server_error (js ''sk-test'') three_images)) =
     vision_fallback server_error"
    using t2 m2 by blast
  moreover have "vision_fallback server_error = js ''Vision API error: 500 Internal Server Error''"
    by (simp add: vision_fallback_def server_error_def number_toString.simps digit_unit_def js_def)
  ultimately have e2: "error (after (generateImage env_server_error (js ''sk-test'') three_images)) =
     js ''Vision API error: 500 Internal Server Error''"
    by simp
  have m3: "json bad_gateway = Inl (Thrown_Error (js ''Unexpected token < in JSON at position 0''))"
    by (simp add: bad_gateway_def)
  have "error (after (generateImage env_bad_gateway (js ''sk-test'') three_images)) =
     catch_message (Thrown_Error (js ''Unexpected token < in JSON at position 0''))"
    using t3 m3 by blast
  then have e3: "error (after (generateImage env_bad_gateway (js ''sk-test'') three_images)) =
     js ''Unexpected token < in JSON at position 0''"
    by (simp add: catch_message_def)
  from three_images_precondition n t1 [THEN conjunct1] t2 [THEN conjunct1] t3 [THEN conjunct1]
    e1 e2 e3
  show ?thesis by (intro conjI)
qed


text \<open>
  The claim as first stated (C1, before the amendment) fails for an error response
  whose body is not JSON: the status is 502,
  no provider message is present, and the error shown is the parser's message, not
  the synthesized one.
\<close>

theorem refinement_failure_unparsable_body:
  "length (uploadedImages three_images) \<noteq> 0 \<and>
   trim (prompt three_images) \<noteq> [] \<and>
   fetch env_bad_gateway
     (vision_request (js ''sk-test'') (uploadedImages three_images) (prompt three_images)) =
     Inr bad_gateway \<and>
   \<not> ok bad_gateway \<and>
   json bad_gateway = Inl (Thrown_Error (js ''Unexpected token < in JSON at position 0'')) \<and>
   error (after (generateImage env_bad_gateway (js ''sk-test'') three_images)) =
     js ''Unexpected token < in JSON at position 0'' \<and>
   error (after (generateImage env_bad_gateway (js ''sk-test'') three_images)) \<noteq>
     vision_fallback bad_gateway"
proof -
  have f: "fetch env_bad_gateway
     (vision_request (js ''sk-test'') (uploadedImages three_images) (prompt three_images)) =
     Inr bad_gateway"
    by (simp add: env_bad_gateway_def fetch_two_step_env)
  have n: "\<not> ok bad_gateway"
    by (simp add: ok_def bad_gateway_def)
  have j: "json bad_gateway = Inl (Thrown_Error (js ''Unexpected token < in JSON at position 0''))"
    by (simp add: bad_gateway_def)
  have e: "error (after (generateImage env_bad_gateway (js ''sk-test'') three_images)) =
     js ''Unexpected token < in JSON at position 0''"
    using three_images_precondition f n j
    by (simp add: generateImage_def try_block_def refine_prompt_def Let_def catch_message_def)
  have d: "js ''Unexpected token < in JSON at position 0'' \<noteq> vision_fallback bad_gateway"
    by (simp add: vision_fallback_def js_def)
  from three_images_precondition f n j e d show ?thesis
    by simp
qed

section \<open>Runs through both steps\<close>

lemma run_refine_thrown:
  assumes "length (uploadedImages st) \<noteq> 0" and "trim (prompt st) \<noteq> []"
    and "fst (refine_prompt env k st) = Inl e"
  shows "generateImage env k st =
     \<lparr>after = st\<lparr>isGenerating := False, error := catch_message e\<rparr>,
      issued = [vision_request k (uploadedImages st) (prompt st)], logged = [e]\<rparr>"
proof -
  note tb = try_block_refine_thrown [OF assms(3)]
  have "fst (try_block env k st) = Inl e" by (simp add: tb)
  from generateImage_thrown [OF assms(1,2) this] show ?thesis by (simp add: tb)
qed

lemma run_synthesize_thrown:
  assumes "length (uploadedImages st) \<noteq> 0" and "trim (prompt st) \<noteq> []"
    and "fst (refine_prompt env k st) = Inr p"
    and "fst (synthesize env k p) = Inl e"
  shows "generateImage env k st =
     \<lparr>after = st\<lparr>isGenerating := False, error := catch_message e\<rparr>,
      issued = [vision_request k (uploadedImages st) (prompt st), image_request k p],
      logged = [e]\<rparr>"
proof -
  note tb = try_block_refined [OF assms(3)]
  have "fst (try_block env k st) = Inl e" by (simp add: tb assms(4))
  from generateImage_thrown [OF assms(1,2) this] show ?thesis by (simp add: tb)
qed

lemma run_value:
  assumes "length (uploadedImages st) \<noteq> 0" and "trim (prompt st) \<noteq> []"
    and "fst (refine_prompt env k st) = Inr p"
    and "fst (synthesize env k p) = Inr u"
  shows "generateImage env k st =
     \<lparr>after = st\<lparr>isGenerating := False, error := [], generatedImage := u\<rparr>,
      issued = [vision_request k (uploadedImages st) (prompt st), image_request k p],
      logged = []\<rparr>"
proof -
  note tb = try_block_refined [OF assms(3)]
  have "fst (try_block env k st) = Inr u" by (simp add: tb assms(4))
  from generateImage_value [OF assms(1,2) this] show ?thesis by (simp add: tb)
qed

lemma get_path_data_url:
  assumes "map_of kvs (js ''data'') = Some (JArray (JObject fs # xs))"
  shows "get_path env (JObject kvs) [js ''data'', js ''0'', js ''url''] =
     Inr (case map_of fs (js ''url'') of None \<Rightarrow> JUndefined | Some v \<Rightarrow> v)"
  using assms by simp

lemma get_path_no_data:
  assumes "map_of kvs (js ''data'') = None"
  shows "get_path env (JObject kvs) [js ''data'', js ''0'', js ''url''] =
     Inl (Thrown_Error (typeError_read env JUndefined (js ''0'')))"
  using assms by simp

lemma vision_fallback_text:
  "vision_fallback r =
     js ''Vision API error: '' @ number_toString (status r) @ js '' '' @ statusText r"
  "vision_fallback r \<noteq> []"
  by (simp_all add: vision_fallback_def js_def)

lemma image_fallback_text:
  "image_fallback = js ''Failed to generate image''" "image_fallback \<noteq> []"
  by (simp_all add: image_fallback_def js_def)

lemma catch_message_Other:
  "catch_message Thrown_Other = js ''Failed to generate image. Please try again.''"
  "catch_message Thrown_Other \<noteq> []"
  by (simp_all add: catch_message_def js_def)

section \<open>Success\<close>

text \<open>
  C3, as amended. When the chat-completion call returns a success status, the
  generating flag is false afterwards, and the outcome follows the bodies. If the
  refined prompt is read, the image call is made with it; when that call returns a
  success status too and its body can be read (it parses as JSON and reading
  \<^verbatim>\<open>data[0].url\<close> does not throw), the generated image becomes the value at
  \<^verbatim>\<open>data[0].url\<close>, whatever it was before, and the error is empty. If reading
  either body throws (it is not JSON, or a property on the way is missing), the
  generated image is left as it was and the error is the message of the exception.
\<close>

theorem both_steps_succeed_replaces_image:
  assumes "length (uploadedImages st) \<noteq> 0" and "trim (prompt st) \<noteq> []"
    and "fetch env (vision_request k (uploadedImages st) (prompt st)) = Inr r1"
    and "ok r1"
  shows "isGenerating (after (generateImage env k st)) = False \<and>
    (\<forall>d1 p r2 d2 u.
        json r1 = Inr d1 \<and>
        get_path env d1 [js ''choices'', js ''0'', js ''message'', js ''content''] = Inr p \<and>
        fetch env (image_request k p) = Inr r2 \<and> ok r2 \<and>
        json r2 = Inr d2 \<and> get_path env d2 [js ''data'', js ''0'', js ''url''] = Inr u \<longrightarrow>
        generatedImage (after (generateImage env k st)) = u \<and>
        error (after (generateImage env k st)) = [] \<and>
        issued (generateImage env k st) =
          [vision_request k (uploadedImages st) (prompt st), image_request k p]) \<and>
    (\<forall>d1 p r2 kvs fs xs.
        json r1 = Inr d1 \<and>
        get_path env d1 [js ''choices'', js ''0'', js ''message'', js ''content''] = Inr p \<and>
        fetch env (image_request k p) = Inr r2 \<and> ok r2 \<and>
        json r2 = Inr (JObject kvs) \<and>
        map_of kvs (js ''data'') = Some (JArray (JObject fs # xs)) \<longrightarrow>
        generatedImage (after (generateImage env k st)) =
          (case map_of fs (js ''url'') of None \<Rightarrow> JUndefined | Some v \<Rightarrow> v) \<and>
        error (after (generateImage env k st)) = []) \<and>
    (\<forall>d1 p r2 e.
        json r1 = Inr d1 \<and>
        get_path env d1 [js ''choices'', js ''0'', js ''message'', js ''content''] = Inr p \<and>
        fetch env (image_request k p) = Inr r2 \<and> ok r2 \<and>
        json r2 = Inl e \<longrightarrow>
        generatedImage (after (generateImage env k st)) = generatedImage st \<and>
        error (after (generateImage env k st)) = catch_message e \<and>
        issued (generateImage env k st) =
          [vision_request k (uploadedImages st) (prompt st), image_request k p]) \<and>
    (\<forall>d1 p r2 d2 e.
        json r1 = Inr d1 \<and>
        get_path env d1 [js ''choices'', js ''0'', js ''message'', js ''content''] = Inr p \<and>
        fetch env (image_request k p) = Inr r2 \<and> ok r2 \<and>
        json r2 = Inr d2 \<and> get_path env d2 [js ''data'', js ''0'', js ''url''] = Inl e \<longrightarrow>
        generatedImage (after (generateImage env k st)) = generatedImage st \<and>
        error (after (generateImage env k st)) = catch_message e \<and>
        issued (generateImage env k st) =
          [vision_request k (uploadedImages st) (prompt st), image_request k p]) \<and>
    (\<forall>d1 p r2 kvs.
        json r1 = Inr d1 \<and>
        get_path env d1 [js ''choices'', js ''0'', js ''message'', js ''content''] = Inr p \<and>
        fetch env (image_request k p) = Inr r2 \<and> ok r2 \<and>
        json r2 = Inr (JObject kvs) \<and> map_of kvs (js ''data'') = None \<longrightarrow>
        generatedImage (after (generateImage env k st)) = generatedImage st \<and>
        error (after (generateImage env k st)) = typeError_read env JUndefined (js ''0'')) \<and>
    (\<forall>e. json r1 = Inl e \<longrightarrow>
        generatedImage (after (generateImage env k st)) = generatedImage st \<and>
        error (after (generateImage env k st)) = catch_message e \<and>
        issued (generateImage env k st) = [vision_request k (uploadedImages st) (prompt st)]) \<and>
    (\<forall>d1 e.
        json r1 = Inr d1 \<and>
        get_path env d1 [js ''choices'', js ''0'', js ''message'', js ''content''] = Inl e \<longrightarrow>
        generatedImage (after (generateImage env k st)) = generatedImage st \<and>
        error (after (generateImage env k st)) = catch_message e \<and>
        issued (generateImage env k st) = [vision_request k (uploadedImages st) (prompt st)])"
proof -
  let ?g = "generateImage env k st"
  let ?req = "vision_request k (uploadedImages st) (prompt st)"
  let ?content = "[js ''choices'', js ''0'', js ''message'', js ''content'']"
  let ?url = "[js ''data'', js ''0'', js ''url'']"
  note rp = fst_refine_prompt_ok [OF assms(3,4)]
  have refined: "fst (refine_prompt env k st) = Inr p"
    if "json r1 = Inr d1" "get_path env d1 ?content = Inr p" for d1 p
    using rp that by simp
  have first_thrown: "generatedImage (after ?g) = generatedImage st \<and>
      error (after ?g) = catch_message e \<and> issued ?g = [?req] \<and>
      isGenerating (after ?g) = False"
    if "fst (refine_prompt env k st) = Inl e" for e
    using run_refine_thrown [OF assms(1,2) that] by simp
  have second_thrown: "generatedImage (after ?g) = generatedImage st \<and>
      error (after ?g) = catch_message e \<and> issued ?g = [?req, image_request k p] \<and>
      isGenerating (after ?g) = False"
    if "fst (refine_prompt env k st) = Inr p" "fst (synthesize env k p) = Inl e" for p e
    using run_synthesize_thrown [OF assms(1,2) that] by simp
  have second_value: "generatedImage (after ?g) = u \<and> error (after ?g) = [] \<and>
      issued ?g = [?req, image_request k p] \<and> isGenerating (after ?g) = False"
    if "fst (refine_prompt env k st) = Inr p" "fst (synthesize env k p) = Inr u" for p u
    using run_value [OF assms(1,2) that] by simp
  have flag: "isGenerating (after ?g) = False"
  proof (cases "fst (refine_prompt env k st)")
    case (Inl e)
    then show ?thesis using first_thrown by simp
  next
    case (Inr p)
    then show ?thesis
      using second_thrown [OF Inr] second_value [OF Inr]
      by (cases "fst (synthesize env k p)") simp_all
  qed
  have a: "generatedImage (after ?g) = u \<and> error (after ?g) = [] \<and>
      issued ?g = [?req, image_request k p]"
    if "json r1 = Inr d1" "get_path env d1 ?content = Inr p"
      "fetch env (image_request k p) = Inr r2" "ok r2"
      "json r2 = Inr d2" "get_path env d2 ?url = Inr u" for d1 p r2 d2 u
  proof -
    have "fst (synthesize env k p) = Inr u"
      using fst_synthesize_ok [OF that(3,4)] that(5,6) by simp
    from second_value [OF refined [OF that(1,2)] this] show ?thesis by simp
  qed
  have b: "generatedImage (after ?g) =
        (case map_of fs (js ''url'') of None \<Rightarrow> JUndefined | Some v \<Rightarrow> v) \<and>
      error (after ?g) = []"
    if "json r1 = Inr d1" "get_path env d1 ?content = Inr p"
      "fetch env (image_request k p) = Inr r2" "ok r2"
      "json r2 = Inr (JObject kvs)" "map_of kvs (js ''data'') = Some (JArray (JObject fs # xs))"
    for d1 p r2 kvs fs xs
    using a [OF that(1,2,3,4,5) get_path_data_url [OF that(6)]] by simp
  have c: "generatedImage (after ?g) = generatedImage st \<and>
      error (after ?g) = catch_message e \<and> issued ?g = [?req, image_request k p]"
    if "json r1 = Inr d1" "get_path env d1 ?content = Inr p"
      "fetch env (image_request k p) = Inr r2" "ok r2" "json r2 = Inl e" for d1 p r2 e
  proof -
    have "fst (synthesize env k p) = Inl e"
      using fst_synthesize_ok [OF that(3,4)] that(5) by simp
    from second_thrown [OF refined [OF that(1,2)] this] show ?thesis by simp
  qed
  have d: "generatedImage (after ?g) = generatedImage st \<and>
      error (after ?g) = catch_message e \<and> issued ?g = [?req, image_request k p]"
    if "json r1 = Inr d1" "get_path env d1 ?content = Inr p"
      "fetch env (image_request k p) = Inr r2" "ok r2"
      "json r2 = Inr d2" "get_path env d2 ?url = Inl e" for d1 p r2 d2 e
  proof -
    have "fst (synthesize env k p) = Inl e"
      using fst_synthesize_ok [OF that(3,4)] that(5,6) by simp
    from second_thrown [OF refined [OF that(1,2)] this] show ?thesis by simp
  qed
  have e: "generatedImage (after ?g) = generatedImage st \<and>
      error (after ?g) = typeError_read env JUndefined (js ''0'')"
    if "json r1 = Inr d1" "get_path env d1 ?content = Inr p"
      "fetch env (image_request k p) = Inr r2" "ok r2"
      "json r2 = Inr (JObject kvs)" "map_of kvs (js ''data'') = None" for d1 p r2 kvs
    using d [OF that(1,2,3,4,5) get_path_no_data [OF that(6)]]
    by (simp add: catch_message_Error)
  have f: "generatedImage (after ?g) = generatedImage st \<and>
      error (after ?g) = catch_message e \<and> issued ?g = [?req]"
    if "json r1 = Inl e" for e
  proof -
    have "fst (refine_prompt env k st) = Inl e" using rp that by simp
    from first_thrown [OF this] show ?thesis by simp
  qed
  have g: "generatedImage (after ?g) = generatedImage st \<and>
      error (after ?g) = catch_message e \<and> issued ?g = [?req]"
    if "json r1 = Inr d1" "get_path env d1 ?content = Inl e" for d1 e
  proof -
    have "fst (refine_prompt env k st) = Inl e" using rp that by simp
    from first_thrown [OF this] show ?thesis by simp
  qed
  show ?thesis
    apply (intro conjI)
    subgoal by (rule flag)
    subgoal using a by blast
    subgoal using b by blast
    subgoal using c by blast
    subgoal using d by blast
    subgoal using e by blast
    subgoal using f by blast
    subgoal using g by blast
    done
qed

theorem both_steps_succeed_replaces_image_witness:
  "length (uploadedImages three_images) \<noteq> 0 \<and>
   trim (prompt three_images) \<noteq> [] \<and>
   ok (ok_response chat_reply) \<and> ok (ok_response image_reply) \<and>
   ok (ok_response (JObject [])) \<and>
   generatedImage three_images = JString (js ''https://old.example/1.png'') \<and>
   generatedImage (after (generateImage env_all_ok (js ''sk-test'') three_images)) =
     JString (js ''https://img.example/new.png'') \<and>
   error (after (generateImage env_all_ok (js ''sk-test'') three_images)) = [] \<and>
   isGenerating (after (generateImage env_all_ok (js ''sk-test'') three_images)) = False \<and>
   generatedImage (after (generateImage env_image_no_data (js ''sk-test'') three_images)) =
     JString (js ''https://old.example/1.png'') \<and>
   isGenerating (after (generateImage env_image_no_data (js ''sk-test'') three_images)) = False"
proof -
  let ?req = "vision_request (js ''sk-test'') (uploadedImages three_images) (prompt three_images)"
  let ?p = "JString (js ''A watercolour cat'')"
  have o: "ok (ok_response chat_reply)" "ok (ok_response image_reply)"
    "ok (ok_response (JObject []))"
    by (simp_all add: ok_def ok_response_def)
  have f1: "fetch env_all_ok ?req = Inr (ok_response chat_reply)"
    by (simp add: env_all_ok_def engine_env_def vision_request_def)
  have f1': "fetch env_image_no_data ?req = Inr (ok_response chat_reply)"
    by (simp add: env_image_no_data_def fetch_two_step_env)
  note t = both_steps_succeed_replaces_image [OF three_images_precondition f1 o(1)]
  note t' = both_steps_succeed_replaces_image [OF three_images_precondition f1' o(1)]
  have h: "json (ok_response chat_reply) = Inr chat_reply \<and>
      get_path env_all_ok chat_reply [js ''choices'', js ''0'', js ''message'', js ''content'']
        = Inr ?p \<and>
      fetch env_all_ok (image_request (js ''sk-test'') ?p) = Inr (ok_response image_reply) \<and>
      ok (ok_response image_reply) \<and>
      json (ok_response image_reply) = Inr image_reply \<and>
      get_path env_all_ok image_reply [js ''data'', js ''0'', js ''url'']
        = Inr (JString (js ''https://img.example/new.png''))"
    by (simp add: ok_response_def ok_def chat_reply_def image_reply_def env_all_ok_def
        engine_env_def image_request_def js_def)
  have h': "json (ok_response chat_reply) = Inr chat_reply \<and>
      get_path env_image_no_data chat_reply
        [js ''choices'', js ''0'', js ''message'', js ''content''] = Inr ?p \<and>
      fetch env_image_no_data (image_request (js ''sk-test'') ?p) =
        Inr (ok_response (JObject [])) \<and>
      ok (ok_response (JObject [])) \<and>
      json (ok_response (JObject [])) = Inr (JObject []) \<and>
      map_of ([] :: (jsstring \<times> jsval) list) (js ''data'') = None"
    by (simp add: ok_response_def ok_def chat_reply_def env_image_no_data_def
        fetch_two_step_env js_def)
  have new: "generatedImage (after (generateImage env_all_ok (js ''sk-test'') three_images)) =
       JString (js ''https://img.example/new.png'') \<and>
     error (after (generateImage env_all_ok (js ''sk-test'') three_images)) = []"
    using t [THEN conjunct2, THEN conjunct1, rule_format, OF h] by simp
  have kept: "generatedImage (after (generateImage env_image_no_data (js ''sk-test'') three_images))
      = generatedImage three_images"
    using t' [THEN conjunct2, THEN conjunct2, THEN conjunct2, THEN conjunct2, THEN conjunct2,
        THEN conjunct1, rule_format, OF h'] by simp
  have old: "generatedImage three_images = JString (js ''https://old.example/1.png'')"
    by (simp add: three_images_def)
  from three_images_precondition o old new t [THEN conjunct1] kept t' [THEN conjunct1]
  show ?thesis by simp
qed

text \<open>
  The claim as first stated (C3, before the amendment) fails when both calls return
  status 200 and the image response is the empty object: both requests are issued,
  reading \<^verbatim>\<open>data[0]\<close> throws, the earlier image stays and an error is shown.
\<close>

theorem success_status_without_image_data:
  "length (uploadedImages three_images) \<noteq> 0 \<and>
   trim (prompt three_images) \<noteq> [] \<and>
   ok (ok_response chat_reply) \<and> ok (ok_response (JObject [])) \<and>
   issued (generateImage env_image_no_data (js ''sk-test'') three_images) =
     [vision_request (js ''sk-test'') (uploadedImages three_images) (prompt three_images),
      image_request (js ''sk-test'') (JString (js ''A watercolour cat''))] \<and>
   fetch env_image_no_data
     (vision_request (js ''sk-test'') (uploadedImages three_images) (prompt three_images)) =
     Inr (ok_response chat_reply) \<and>
   fetch env_image_no_data (image_request (js ''sk-test'') (JString (js ''A watercolour cat''))) =
     Inr (ok_response (JObject [])) \<and>
   generatedImage (after (generateImage env_image_no_data (js ''sk-test'') three_images)) =
     JString (js ''https://old.example/1.png'') \<and>
   error (after (generateImage env_image_no_data (js ''sk-test'') three_images)) =
     js ''Cannot read properties of null or undefined''"
proof -
  let ?g = "generateImage env_image_no_data (js ''sk-test'') three_images"
  have o: "ok (ok_response chat_reply)" "ok (ok_response (JObject []))"
    by (simp_all add: ok_def ok_response_def)
  have f: "fetch env_image_no_data
     (vision_request (js ''sk-test'') (uploadedImages three_images) (prompt three_images)) =
     Inr (ok_response chat_reply)"
    "fetch env_image_no_data (image_request (js ''sk-test'') (JString (js ''A watercolour cat''))) =
     Inr (ok_response (JObject []))"
    by (simp_all add: env_image_no_data_def fetch_two_step_env)
  have r: "refine_prompt env_image_no_data (js ''sk-test'') three_images =
      (Inr (JString (js ''A watercolour cat'')),
       [vision_request (js ''sk-test'') (uploadedImages three_images) (prompt three_images)])"
    using f(1) o(1)
    by (simp add: refine_prompt_def Let_def ok_response_def chat_reply_def js_def)
  have s: "synthesize env_image_no_data (js ''sk-test'') (JString (js ''A watercolour cat'')) =
      (Inl (Thrown_Error (js ''Cannot read properties of null or undefined'')),
       [image_request (js ''sk-test'') (JString (js ''A watercolour cat''))])"
    using f(2) o(2)
    by (simp add: synthesize_def Let_def ok_response_def env_image_no_data_def
        two_step_env_def engine_env_def)
  have g: "?g = \<lparr>after = three_images\<lparr>isGenerating := False,
        error := js ''Cannot read properties of null or undefined''\<rparr>,
      issued = [vision_request (js ''sk-test'') (uploadedImages three_images) (prompt three_images),
        image_request (js ''sk-test'') (JString (js ''A watercolour cat''))],
      logged = [Thrown_Error (js ''Cannot read properties of null or undefined'')]\<rparr>"
    using three_images_precondition
    by (simp add: generateImage_def try_block_def r s catch_message_def Let_def)
  have old: "generatedImage three_images = JString (js ''https://old.example/1.png'')"
    by (simp add: three_images_def)
  from three_images_precondition o f old show ?thesis
    by (simp add: g)
qed

section \<open>Cleanup and reporting\<close>

text \<open>
  C4, as amended. Every run that passes the precondition check ends with the
  generating flag false, whether the \<^verbatim>\<open>try\<close> block yields a value or throws. A
  thrown value is caught and logged, and the error is set to the message of the
  \<^verbatim>\<open>Error\<close>, or to a fixed text for any other value; this covers a rejected
  \<^verbatim>\<open>fetch\<close> and a body that fails to parse. The error set is not empty for the
  fixed text, for the synthesized fallback of either step and for a provider message
  that is a non-empty string; for an \<^verbatim>\<open>Error\<close> with the empty message it is empty.
\<close>

theorem generateImage_clears_flag_and_reports:
  assumes "length (uploadedImages st) \<noteq> 0" and "trim (prompt st) \<noteq> []"
  shows "isGenerating (after (generateImage env k st)) = False \<and>
    (\<forall>u. fst (try_block env k st) = Inr u \<longrightarrow>
        generatedImage (after (generateImage env k st)) = u \<and>
        error (after (generateImage env k st)) = [] \<and>
        logged (generateImage env k st) = []) \<and>
    (\<forall>e. fst (try_block env k st) = Inl e \<longrightarrow>
        error (after (generateImage env k st)) = catch_message e \<and>
        logged (generateImage env k st) = [e] \<and>
        generatedImage (after (generateImage env k st)) = generatedImage st) \<and>
    (\<forall>m. fst (try_block env k st) = Inl (Thrown_Error m) \<longrightarrow>
        error (after (generateImage env k st)) = m) \<and>
    (fst (try_block env k st) = Inl Thrown_Other \<longrightarrow>
        error (after (generateImage env k st)) =
          js ''Failed to generate image. Please try again.'' \<and>
        error (after (generateImage env k st)) \<noteq> []) \<and>
    (\<forall>e. fetch env (vision_request k (uploadedImages st) (prompt st)) = Inl e \<longrightarrow>
        error (after (generateImage env k st)) = catch_message e) \<and>
    (\<forall>r e. fetch env (vision_request k (uploadedImages st) (prompt st)) = Inr r \<and>
        json r = Inl e \<longrightarrow>
        error (after (generateImage env k st)) = catch_message e) \<and>
    (\<forall>r d m t. fetch env (vision_request k (uploadedImages st) (prompt st)) = Inr r \<and>
        \<not> ok r \<and> json r = Inr d \<and> error_message_of env d = Inr m \<and> truthy m \<and>
        ToString env m = Inr t \<longrightarrow>
        error (after (generateImage env k st)) = t) \<and>
    (\<forall>r d s. fetch env (vision_request k (uploadedImages st) (prompt st)) = Inr r \<and>
        \<not> ok r \<and> json r = Inr d \<and> error_message_of env d = Inr (JString s) \<and> s \<noteq> [] \<longrightarrow>
        error (after (generateImage env k st)) = s \<and>
        error (after (generateImage env k st)) \<noteq> []) \<and>
    (\<forall>r d m. fetch env (vision_request k (uploadedImages st) (prompt st)) = Inr r \<and>
        \<not> ok r \<and> json r = Inr d \<and> error_message_of env d = Inr m \<and> \<not> truthy m \<longrightarrow>
        error (after (generateImage env k st)) =
          js ''Vision API error: '' @ number_toString (status r) @ js '' '' @ statusText r \<and>
        error (after (generateImage env k st)) \<noteq> []) \<and>
    (\<forall>p r d m t. fst (refine_prompt env k st) = Inr p \<and>
        fetch env (image_request k p) = Inr r \<and>
        \<not> ok r \<and> json r = Inr d \<and> error_message_of env d = Inr m \<and> truthy m \<and>
        ToString env m = Inr t \<longrightarrow>
        error (after (generateImage env k st)) = t) \<and>
    (\<forall>p r d s. fst (refine_prompt env k st) = Inr p \<and>
        fetch env (image_request k p) = Inr r \<and>
        \<not> ok r \<and> json r = Inr d \<and> error_message_of env d = Inr (JString s) \<and> s \<noteq> [] \<longrightarrow>
        error (after (generateImage env k st)) = s \<and>
        error (after (generateImage env k st)) \<noteq> []) \<and>
    (\<forall>p r d m. fst (refine_prompt env k st) = Inr p \<and>
        fetch env (image_request k p) = Inr r \<and>
        \<not> ok r \<and> json r = Inr d \<and> error_message_of env d = Inr m \<and> \<not> truthy m \<longrightarrow>
        error (after (generateImage env k st)) = js ''Failed to generate image'' \<and>
        error (after (generateImage env k st)) \<noteq> [])"
proof -
  let ?g = "generateImage env k st"
  let ?req = "vision_request k (uploadedImages st) (prompt st)"
  have thrown: "error (after ?g) = catch_message e \<and> logged ?g = [e] \<and>
      generatedImage (after ?g) = generatedImage st \<and> isGenerating (after ?g) = False"
    if "fst (try_block env k st) = Inl e" for e
    using generateImage_thrown [OF assms that] by simp
  have val: "generatedImage (after ?g) = u \<and> error (after ?g) = [] \<and> logged ?g = [] \<and>
      isGenerating (after ?g) = False"
    if "fst (try_block env k st) = Inr u" for u
    using generateImage_value [OF assms that] by simp
  have first: "error (after ?g) = catch_message e"
    if "fst (refine_prompt env k st) = Inl e" for e
    using run_refine_thrown [OF assms that] by simp
  have second: "error (after ?g) = catch_message e"
    if "fst (refine_prompt env k st) = Inr p" "fst (synthesize env k p) = Inl e" for p e
    using run_synthesize_thrown [OF assms that] by simp
  have c1: "isGenerating (after ?g) = False"
    using thrown val by (cases "fst (try_block env k st)") simp_all
  have c2: "\<forall>u. fst (try_block env k st) = Inr u \<longrightarrow>
      generatedImage (after ?g) = u \<and> error (after ?g) = [] \<and> logged ?g = []"
    using val by simp
  have c3: "\<forall>e. fst (try_block env k st) = Inl e \<longrightarrow>
      error (after ?g) = catch_message e \<and> logged ?g = [e] \<and>
      generatedImage (after ?g) = generatedImage st"
    using thrown by simp
  have c4: "\<forall>m. fst (try_block env k st) = Inl (Thrown_Error m) \<longrightarrow> error (after ?g) = m"
    using thrown by (simp add: catch_message_Error)
  have c5: "fst (try_block env k st) = Inl Thrown_Other \<longrightarrow>
      error (after ?g) = js ''Failed to generate image. Please try again.'' \<and>
      error (after ?g) \<noteq> []"
    using thrown [of Thrown_Other] catch_message_Other by simp
  have c6: "\<forall>e. fetch env ?req = Inl e \<longrightarrow> error (after ?g) = catch_message e"
  proof (intro allI impI)
    fix e assume "fetch env ?req = Inl e"
    then have "fst (refine_prompt env k st) = Inl e"
      by (simp add: refine_prompt_def Let_def)
    then show "error (after ?g) = catch_message e" by (rule first)
  qed
  have c7: "\<forall>r e. fetch env ?req = Inr r \<and> json r = Inl e \<longrightarrow>
      error (after ?g) = catch_message e"
  proof (intro allI impI)
    fix r e assume "fetch env ?req = Inr r \<and> json r = Inl e"
    then have "fst (refine_prompt env k st) = Inl e"
      by (simp add: refine_prompt_def Let_def)
    then show "error (after ?g) = catch_message e" by (rule first)
  qed
  have v: "error (after ?g) = t"
    if "fetch env ?req = Inr r" "\<not> ok r" "json r = Inr d" "error_message_of env d = Inr m"
      "truthy m" "ToString env m = Inr t" for r d m t
  proof -
    have "fst (refine_prompt env k st) = Inl (Thrown_Error t)"
      using fst_refine_prompt_failed [OF that(1,2)] that(3,4,5,6)
      by (simp add: throw_new_Error_truthy)
    from first [OF this] show ?thesis by (simp add: catch_message_Error)
  qed
  have c8: "\<forall>r d m t. fetch env ?req = Inr r \<and> \<not> ok r \<and> json r = Inr d \<and>
      error_message_of env d = Inr m \<and> truthy m \<and> ToString env m = Inr t \<longrightarrow>
      error (after ?g) = t"
    using v by blast
  have c9: "\<forall>r d s. fetch env ?req = Inr r \<and> \<not> ok r \<and> json r = Inr d \<and>
      error_message_of env d = Inr (JString s) \<and> s \<noteq> [] \<longrightarrow>
      error (after ?g) = s \<and> error (after ?g) \<noteq> []"
  proof (intro allI impI)
    fix r d s
    assume h: "fetch env ?req = Inr r \<and> \<not> ok r \<and> json r = Inr d \<and>
      error_message_of env d = Inr (JString s) \<and> s \<noteq> []"
    then have "error (after ?g) = s"
      using v [of r d "JString s" s] by simp
    with h show "error (after ?g) = s \<and> error (after ?g) \<noteq> []" by simp
  qed
  have c10: "\<forall>r d m. fetch env ?req = Inr r \<and> \<not> ok r \<and> json r = Inr d \<and>
      error_message_of env d = Inr m \<and> \<not> truthy m \<longrightarrow>
      error (after ?g) =
        js ''Vision API error: '' @ number_toString (status r) @ js '' '' @ statusText r \<and>
      error (after ?g) \<noteq> []"
  proof (intro allI impI)
    fix r d m
    assume h: "fetch env ?req = Inr r \<and> \<not> ok r \<and> json r = Inr d \<and>
      error_message_of env d = Inr m \<and> \<not> truthy m"
    then have "fst (refine_prompt env k st) = Inl (Thrown_Error (vision_fallback r))"
      using fst_refine_prompt_failed [of env k st r] by (simp add: throw_new_Error_string)
    from first [OF this] have "error (after ?g) = vision_fallback r"
      by (simp add: catch_message_Error)
    then show "error (after ?g) =
        js ''Vision API error: '' @ number_toString (status r) @ js '' '' @ statusText r \<and>
      error (after ?g) \<noteq> []"
      using vision_fallback_text [of r] by simp
  qed
  have w: "error (after ?g) = t"
    if "fst (refine_prompt env k st) = Inr p" "fetch env (image_request k p) = Inr r" "\<not> ok r"
      "json r = Inr d" "error_message_of env d = Inr m" "truthy m" "ToString env m = Inr t"
    for p r d m t
  proof -
    have "fst (synthesize env k p) = Inl (Thrown_Error t)"
      using fst_synthesize_failed [OF that(2,3)] that(4,5,6,7)
      by (simp add: throw_new_Error_truthy)
    from second [OF that(1) this] show ?thesis by (simp add: catch_message_Error)
  qed
  have c11: "\<forall>p r d m t. fst (refine_prompt env k st) = Inr p \<and>
      fetch env (image_request k p) = Inr r \<and> \<not> ok r \<and> json r = Inr d \<and>
      error_message_of env d = Inr m \<and> truthy m \<and> ToString env m = Inr t \<longrightarrow>
      error (after ?g) = t"
    using w by blast
  have c12: "\<forall>p r d s. fst (refine_prompt env k st) = Inr p \<and>
      fetch env (image_request k p) = Inr r \<and> \<not> ok r \<and> json r = Inr d \<and>
      error_message_of env d = Inr (JString s) \<and> s \<noteq> [] \<longrightarrow>
      error (after ?g) = s \<and> error (after ?g) \<noteq> []"
  proof (intro allI impI)
    fix p r d s
    assume h: "fst (refine_prompt env k st) = Inr p \<and>
      fetch env (image_request k p) = Inr r \<and> \<not> ok r \<and> json r = Inr d \<and>
      error_message_of env d = Inr (JString s) \<and> s \<noteq> []"
    then have "error (after ?g) = s"
      using w [of p r d "JString s" s] by simp
    with h show "error (after ?g) = s \<and> error (after ?g) \<noteq> []" by simp
  qed
  have c13: "\<forall>p r d m. fst (refine_prompt env k st) = Inr p \<and>
      fetch env (image_request k p) = Inr r \<and> \<not> ok r \<and> json r = Inr d \<and>
      error_message_of env d = Inr m \<and> \<not> truthy m \<longrightarrow>
      error (after ?g) = js ''Failed to generate image'' \<and> error (after ?g) \<noteq> []"
  proof (intro allI impI)
    fix p r d m
    assume h: "fst (refine_prompt env k st) = Inr p \<and>
      fetch env (image_request k p) = Inr r \<and> \<not> ok r \<and> json r = Inr d \<and>
      error_message_of env d = Inr m \<and> \<not> truthy m"
    then have "fst (synthesize env k p) = Inl (Thrown_Error image_fallback)"
      using fst_synthesize_failed [of env k p r] by (simp add: throw_new_Error_string)
    with h have "error (after ?g) = image_fallback"
      using second [of p "Thrown_Error image_fallback"] by (simp add: catch_message_Error)
    then show "error (after ?g) = js ''Failed to generate image'' \<and> error (after ?g) \<noteq> []"
      using image_fallback_text by simp
  qed
  from c1 c2 c3 c4 c5 c6 c7 c8 c9 c10 c11 c12 c13 show ?thesis
    by (intro conjI)
qed

theorem generateImage_clears_flag_and_reports_witness:
  "length (uploadedImages three_images) \<noteq> 0 \<and>
   trim (prompt three_images) \<noteq> [] \<and>
   isGenerating (after (generateImage env_all_ok (js ''sk-test'') three_images)) = False \<and>
   isGenerating (after (generateImage env_offline (js ''sk-test'') three_images)) = False \<and>
   error (after (generateImage env_offline (js ''sk-test'') three_images)) =
     js ''Failed to fetch'' \<and>
   isGenerating (after (generateImage env_bad_gateway (js ''sk-test'') three_images)) = False \<and>
   error (after (generateImage env_bad_gateway (js ''sk-test'') three_images)) =
     js ''Unexpected token < in JSON at position 0'' \<and>
   isGenerating (after (generateImage env_thrown_other (js ''sk-test'') three_images)) = False \<and>
   error (after (generateImage env_thrown_other (js ''sk-test'') three_images)) =
     js ''Failed to generate image. Please try again.'' \<and>
   error (after (generateImage env_unauthorized (js ''sk-test'') three_images)) =
     js ''Incorrect API key provided'' \<and>
   error (after (generateImage env_server_error (js ''sk-test'') three_images)) =
     js ''Vision API error: 500 Internal Server Error'' \<and>
   error (after (generateImage env_rejected_prompt (js ''sk-test'') three_images)) =
     js ''Your request was rejected''"
proof -
  let ?req = "vision_request (js ''sk-test'') (uploadedImages three_images) (prompt three_images)"
  note t = generateImage_clears_flag_and_reports [OF three_images_precondition]
  note t1 = t [where env = env_all_ok and k = "js ''sk-test''"]
  note t2 = t [where env = env_offline and k = "js ''sk-test''"]
  note t3 = t [where env = env_bad_gateway and k = "js ''sk-test''"]
  note t4 = t [where env = env_thrown_other and k = "js ''sk-test''"]
  note t5 = t [where env = env_unauthorized and k = "js ''sk-test''"]
  note t6 = t [where env = env_server_error and k = "js ''sk-test''"]
  note t7 = t [where env = env_rejected_prompt and k = "js ''sk-test''"]
  have f2: "fetch env_offline ?req = Inl (Thrown_Error (js ''Failed to fetch''))"
    by (simp add: env_offline_def engine_env_def)
  have f3: "fetch env_bad_gateway ?req = Inr bad_gateway \<and>
      json bad_gateway = Inl (Thrown_Error (js ''Unexpected token < in JSON at position 0''))"
    by (simp add: env_bad_gateway_def fetch_two_step_env bad_gateway_def)
  have f4: "fetch env_thrown_other ?req = Inl Thrown_Other"
    by (simp add: env_thrown_other_def engine_env_def)
  have f5: "fetch env_unauthorized ?req = Inr unauthorized \<and> \<not> ok unauthorized \<and>
      json unauthorized = Inr (JObject [(js ''error'',
               JObject [(js ''message'', JString (js ''Incorrect API key provided'')),
                        (js ''type'', JString (js ''invalid_request_error''))])]) \<and>
      error_message_of env_unauthorized (JObject [(js ''error'',
               JObject [(js ''message'', JString (js ''Incorrect API key provided'')),
                        (js ''type'', JString (js ''invalid_request_error''))])]) =
        Inr (JString (js ''Incorrect API key provided'')) \<and>
      js ''Incorrect API key provided'' \<noteq> []"
    by (simp add: env_unauthorized_def fetch_two_step_env unauthorized_def ok_def
        error_message_of_def js_def)
  have f6: "fetch env_server_error ?req = Inr server_error \<and> \<not> ok server_error \<and>
      json server_error = Inr (JObject []) \<and>
      error_message_of env_server_error (JObject []) = Inr JUndefined \<and> \<not> truthy JUndefined"
    by (simp add: env_server_error_def fetch_two_step_env server_error_def ok_def
        error_message_of_def)
  have r7: "fst (refine_prompt env_rejected_prompt (js ''sk-test'') three_images) =
      Inr (JString (js ''A watercolour cat''))"
    by (simp add: refine_prompt_def Let_def env_rejected_prompt_def fetch_two_step_env
        ok_response_def ok_def chat_reply_def js_def)
  have f7: "fst (refine_prompt env_rejected_prompt (js ''sk-test'') three_images) =
      Inr (JString (js ''A watercolour cat'')) \<and>
      fetch env_rejected_prompt (image_request (js ''sk-test'') (JString (js ''A watercolour cat'')))
        = Inr rejected_prompt \<and> \<not> ok rejected_prompt \<and>
      json rejected_prompt = Inr (JObject [(js ''error'',
               JObject [(js ''code'', JString (js ''content_policy_violation'')),
                        (js ''message'', JString (js ''Your request was rejected''))])]) \<and>
      error_message_of env_rejected_prompt (JObject [(js ''error'',
               JObject [(js ''code'', JString (js ''content_policy_violation'')),
                        (js ''message'', JString (js ''Your request was rejected''))])]) =
        Inr (JString (js ''Your request was rejected'')) \<and>
      js ''Your request was rejected'' \<noteq> []"
    using r7
    by (simp add: env_rejected_prompt_def fetch_two_step_env rejected_prompt_def ok_def
        error_message_of_def js_def)
  have e2: "error (after (generateImage env_offline (js ''sk-test'') three_images)) =
     js ''Failed to fetch''"
    using t2 [THEN conjunct2, THEN conjunct2, THEN conjunct2, THEN conjunct2, THEN conjunct2, THEN conjunct1, rule_format, OF f2] by (simp add: catch_message_def)
  have e3: "error (after (generateImage env_bad_gateway (js ''sk-test'') three_images)) =
     js ''Unexpected token < in JSON at position 0''"
    using t3 [THEN conjunct2, THEN conjunct2, THEN conjunct2, THEN conjunct2, THEN conjunct2, THEN conjunct2, THEN conjunct1, rule_format, OF f3] by (simp add: catch_message_def)
  have e4: "error (after (generateImage env_thrown_other (js ''sk-test'') three_images)) =
     js ''Failed to generate image. Please try again.''"
    using t4 [THEN conjunct2, THEN conjunct2, THEN conjunct2, THEN conjunct2, THEN conjunct2, THEN conjunct1, rule_format, OF f4] by (simp add: catch_message_def)
  have e5: "error (after (generateImage env_unauthorized (js ''sk-test'') three_images)) =
     js ''Incorrect API key provided''"
    using t5 [THEN conjunct2, THEN conjunct2, THEN conjunct2, THEN conjunct2, THEN conjunct2, THEN conjunct2, THEN conjunct2, THEN conjunct2, THEN conjunct1, rule_format, OF f5] by simp
  have "error (after (generateImage env_server_error (js ''sk-test'') three_images)) =
     js ''Vision API error: '' @ number_toString (status server_error) @ js '' '' @
     statusText server_error"
    using t6 [THEN conjunct2, THEN conjunct2, THEN conjunct2, THEN conjunct2, THEN conjunct2, THEN conjunct2, THEN conjunct2, THEN conjunct2, THEN conjunct2, THEN conjunct1, rule_format, OF f6] by simp
  moreover have "js ''Vision API error: '' @ number_toString (status server_error) @ js '' '' @
     statusText server_error = js ''Vision API error: 500 Internal Server Error''"
    by (simp add: server_error_def number_toString.simps digit_unit_def js_def)
  ultimately have e6: "error (after (generateImage env_server_error (js ''sk-test'') three_images))
      = js ''Vision API error: 500 Internal Server Error''"
    by simp
  have e7: "error (after (generateImage env_rejected_prompt (js ''sk-test'') three_images)) =
     js ''Your request was rejected''"
    using t7 [THEN conjunct2, THEN conjunct2, THEN conjunct2, THEN conjunct2, THEN conjunct2, THEN conjunct2, THEN conjunct2, THEN conjunct2, THEN conjunct2, THEN conjunct2, THEN conjunct2, THEN conjunct1, rule_format, OF f7] by simp
  from three_images_precondition t1 [THEN conjunct1] t2 [THEN conjunct1] e2
    t3 [THEN conjunct1] e3 t4 [THEN conjunct1] e4 e5 e6 e7
  show ?thesis by (intro conjI)
qed

text \<open>
  The claim as first stated (C4, before the amendment) fails when the provider's error
  message is the empty array: it is truthy, its string form is empty, the exception
  thrown and logged has the empty message, and the error set is the empty string,
  which the component does not display.
\<close>

theorem exception_with_empty_message:
  "length (uploadedImages three_images) \<noteq> 0 \<and>
   trim (prompt three_images) \<noteq> [] \<and>
   fetch env_vision_empty_message
     (vision_request (js ''sk-test'') (uploadedImages three_images) (prompt three_images)) =
     Inr empty_message_error \<and>
   \<not> ok empty_message_error \<and>
   json empty_message_error =
     Inr (JObject [(js ''error'', JObject [(js ''message'', JArray [])])]) \<and>
   fst (try_block env_vision_empty_message (js ''sk-test'') three_images) =
     Inl (Thrown_Error []) \<and>
   logged (generateImage env_vision_empty_message (js ''sk-test'') three_images) =
     [Thrown_Error []] \<and>
   error (after (generateImage env_vision_empty_message (js ''sk-test'') three_images)) = []"
proof -
  have f: "fetch env_vision_empty_message
     (vision_request (js ''sk-test'') (uploadedImages three_images) (prompt three_images)) =
     Inr empty_message_error"
    by (simp add: env_vision_empty_message_def fetch_two_step_env)
  have n: "\<not> ok empty_message_error"
    by (simp add: ok_def empty_message_error_def)
  have j: "json empty_message_error =
     Inr (JObject [(js ''error'', JObject [(js ''message'', JArray [])])])"
    by (simp add: empty_message_error_def)
  have r: "refine_prompt env_vision_empty_message (js ''sk-test'') three_images =
      (Inl (Thrown_Error []),
       [vision_request (js ''sk-test'') (uploadedImages three_images) (prompt three_images)])"
    using f n j
    by (simp add: refine_prompt_def Let_def error_message_of_def throw_new_Error_def)
  have tb: "fst (try_block env_vision_empty_message (js ''sk-test'') three_images) =
     Inl (Thrown_Error [])"
    by (simp add: try_block_def r)
  have g: "logged (generateImage env_vision_empty_message (js ''sk-test'') three_images) =
       [Thrown_Error []] \<and>
     error (after (generateImage env_vision_empty_message (js ''sk-test'') three_images)) = []"
    using three_images_precondition
    by (simp add: generateImage_def try_block_def r catch_message_def Let_def)
  from three_images_precondition f n j tb g show ?thesis
    by simp
qed

section \<open>Failure of the synthesis step\<close>

text \<open>
  C5, as amended. When refinement succeeds and the image-generation call returns a
  non-success status, the generated image, the uploaded images and the prompt are as
  before the run, and the error is set to the message of what the step threw: the
  string form of the provider's message when one is present,
  \<^verbatim>\<open>Failed to generate image\<close> when none is, the message of the exception when
  reading the error body throws. It is not empty when the provider's message is a
  non-empty string or is absent.
\<close>

theorem synthesis_failure_keeps_previous_image:
  assumes "length (uploadedImages st) \<noteq> 0" and "trim (prompt st) \<noteq> []"
    and "fetch env (vision_request k (uploadedImages st) (prompt st)) = Inr r1"
    and "ok r1" and "json r1 = Inr d1"
    and "get_path env d1 [js ''choices'', js ''0'', js ''message'', js ''content''] = Inr p"
    and "fetch env (image_request k p) = Inr r2"
    and "\<not> ok r2"
  shows "generatedImage (after (generateImage env k st)) = generatedImage st \<and>
    uploadedImages (after (generateImage env k st)) = uploadedImages st \<and>
    prompt (after (generateImage env k st)) = prompt st \<and>
    isGenerating (after (generateImage env k st)) = False \<and>
    issued (generateImage env k st) =
      [vision_request k (uploadedImages st) (prompt st), image_request k p] \<and>
    (\<exists>e. fst (synthesize env k p) = Inl e \<and>
         error (after (generateImage env k st)) = catch_message e \<and>
         logged (generateImage env k st) = [e]) \<and>
    (\<forall>d m t. json r2 = Inr d \<and> error_message_of env d = Inr m \<and> truthy m \<and>
         ToString env m = Inr t \<longrightarrow>
         error (after (generateImage env k st)) = t) \<and>
    (\<forall>d s. json r2 = Inr d \<and> error_message_of env d = Inr (JString s) \<and> s \<noteq> [] \<longrightarrow>
         error (after (generateImage env k st)) = s \<and>
         error (after (generateImage env k st)) \<noteq> []) \<and>
    (\<forall>d m. json r2 = Inr d \<and> error_message_of env d = Inr m \<and> \<not> truthy m \<longrightarrow>
         error (after (generateImage env k st)) = js ''Failed to generate image'' \<and>
         error (after (generateImage env k st)) \<noteq> []) \<and>
    (\<forall>e. json r2 = Inl e \<longrightarrow> error (after (generateImage env k st)) = catch_message e) \<and>
    (\<forall>d e. json r2 = Inr d \<and> error_message_of env d = Inl e \<longrightarrow>
         error (after (generateImage env k st)) = catch_message e) \<and>
    (\<forall>d m e. json r2 = Inr d \<and> error_message_of env d = Inr m \<and> truthy m \<and>
         ToString env m = Inl e \<longrightarrow>
         error (after (generateImage env k st)) = catch_message e)"
proof -
  let ?g = "generateImage env k st"
  have p: "fst (refine_prompt env k st) = Inr p"
    using fst_refine_prompt_ok [OF assms(3,4)] assms(5,6) by simp
  note sy = fst_synthesize_failed [OF assms(7,8)]
  obtain x where x: "fst (synthesize env k p) = Inl x"
    using sy by (auto split: sum.splits)
  note g = run_synthesize_thrown [OF assms(1,2) p x]
  have c1: "generatedImage (after ?g) = generatedImage st" by (simp add: g)
  have c2: "uploadedImages (after ?g) = uploadedImages st" by (simp add: g)
  have c3: "prompt (after ?g) = prompt st" by (simp add: g)
  have c4: "isGenerating (after ?g) = False" by (simp add: g)
  have c5: "issued ?g = [vision_request k (uploadedImages st) (prompt st), image_request k p]"
    by (simp add: g)
  have c6: "\<exists>e. fst (synthesize env k p) = Inl e \<and> error (after ?g) = catch_message e \<and>
      logged ?g = [e]"
    using x by (simp add: g)
  have e: "error (after ?g) = catch_message x" by (simp add: g)
  have c7: "\<forall>d m t. json r2 = Inr d \<and> error_message_of env d = Inr m \<and> truthy m \<and>
      ToString env m = Inr t \<longrightarrow> error (after ?g) = t"
    using sy x e by (auto simp: throw_new_Error_truthy catch_message_Error)
  have c8: "\<forall>d s. json r2 = Inr d \<and> error_message_of env d = Inr (JString s) \<and> s \<noteq> [] \<longrightarrow>
      error (after ?g) = s \<and> error (after ?g) \<noteq> []"
    using sy x e by (auto simp: throw_new_Error_string catch_message_Error)
  have c9: "\<forall>d m. json r2 = Inr d \<and> error_message_of env d = Inr m \<and> \<not> truthy m \<longrightarrow>
      error (after ?g) = js ''Failed to generate image'' \<and> error (after ?g) \<noteq> []"
    using sy x e image_fallback_text
    by (auto simp: throw_new_Error_string catch_message_Error)
  have c10: "\<forall>e. json r2 = Inl e \<longrightarrow> error (after ?g) = catch_message e"
    using sy x e by auto
  have c11: "\<forall>d e. json r2 = Inr d \<and> error_message_of env d = Inl e \<longrightarrow>
      error (after ?g) = catch_message e"
    using sy x e by auto
  have c12: "\<forall>d m e. json r2 = Inr d \<and> error_message_of env d = Inr m \<and> truthy m \<and>
      ToString env m = Inl e \<longrightarrow> error (after ?g) = catch_message e"
    using sy x e by (auto simp: throw_new_Error_truthy)
  from c1 c2 c3 c4 c5 c6 c7 c8 c9 c10 c11 c12 show ?thesis
    by (intro conjI)
qed

theorem synthesis_failure_keeps_previous_image_witness:
  "length (uploadedImages three_images) \<noteq> 0 \<and>
   trim (prompt three_images) \<noteq> [] \<and>
   ok (ok_response chat_reply) \<and> \<not> ok rejected_prompt \<and>
   generatedImage (after (generateImage env_rejected_prompt (js ''sk-test'') three_images)) =
     JString (js ''https://old.example/1.png'') \<and>
   uploadedImages (after (generateImage env_rejected_prompt (js ''sk-test'') three_images)) =
     uploadedImages three_images \<and>
   prompt (after (generateImage env_rejected_prompt (js ''sk-test'') three_images)) = js ''a cat'' \<and>
   error three_images = js ''stale'' \<and>
   error (after (generateImage env_rejected_prompt (js ''sk-test'') three_images)) =
     js ''Your request was rejected''"
proof -
  let ?g = "generateImage env_rejected_prompt (js ''sk-test'') three_images"
  have o: "ok (ok_response chat_reply)" "\<not> ok rejected_prompt"
    by (simp_all add: ok_def ok_response_def rejected_prompt_def)
  have f1: "fetch env_rejected_prompt
      (vision_request (js ''sk-test'') (uploadedImages three_images) (prompt three_images)) =
      Inr (ok_response chat_reply)"
    by (simp add: env_rejected_prompt_def fetch_two_step_env)
  have f2: "fetch env_rejected_prompt
      (image_request (js ''sk-test'') (JString (js ''A watercolour cat''))) = Inr rejected_prompt"
    by (simp add: env_rejected_prompt_def fetch_two_step_env)
  have j: "json (ok_response chat_reply) = Inr chat_reply"
    by (simp add: ok_response_def)
  have g1: "get_path env_rejected_prompt chat_reply
      [js ''choices'', js ''0'', js ''message'', js ''content'']
      = Inr (JString (js ''A watercolour cat''))"
    by (simp add: chat_reply_def js_def)
  note t = synthesis_failure_keeps_previous_image
    [OF three_images_precondition f1 o(1) j g1 f2 o(2)]
  have m: "json rejected_prompt = Inr (JObject [(js ''error'',
               JObject [(js ''code'', JString (js ''content_policy_violation'')),
                        (js ''message'', JString (js ''Your request was rejected''))])]) \<and>
      error_message_of env_rejected_prompt (JObject [(js ''error'',
               JObject [(js ''code'', JString (js ''content_policy_violation'')),
                        (js ''message'', JString (js ''Your request was rejected''))])]) =
        Inr (JString (js ''Your request was rejected'')) \<and>
      js ''Your request was rejected'' \<noteq> []"
    by (simp add: rejected_prompt_def error_message_of_def js_def)
  have e: "error (after ?g) = js ''Your request was rejected''"
    using t [THEN conjunct2, THEN conjunct2, THEN conjunct2, THEN conjunct2, THEN conjunct2, THEN conjunct2, THEN conjunct2, THEN conjunct1, rule_format, OF m] by simp
  have s: "generatedImage three_images = JString (js ''https://old.example/1.png'')"
    "prompt three_images = js ''a cat''" "error three_images = js ''stale''"
    by (simp_all add: three_images_def)
  have c1: "generatedImage (after ?g) = JString (js ''https://old.example/1.png'')"
    using t [THEN conjunct1] s(1) by simp
  have c3: "prompt (after ?g) = js ''a cat''"
    using t [THEN conjunct2, THEN conjunct2, THEN conjunct1] s(2) by simp
  from three_images_precondition o c1 t [THEN conjunct2, THEN conjunct1] c3 s(3) e
  show ?thesis by (intro conjI)
qed

text \<open>
  The claim as first stated (C5, before the amendment) fails when the provider's error
  message is the empty array: the error, which held a text before the run, is empty
  after it.
\<close>

theorem synthesis_failure_empty_message:
  "length (uploadedImages three_images) \<noteq> 0 \<and>
   trim (prompt three_images) \<noteq> [] \<and>
   fetch env_image_empty_message
     (vision_request (js ''sk-test'') (uploadedImages three_images) (prompt three_images)) =
     Inr (ok_response chat_reply) \<and>
   ok (ok_response chat_reply) \<and>
   issued (generateImage env_image_empty_message (js ''sk-test'') three_images) =
     [vision_request (js ''sk-test'') (uploadedImages three_images) (prompt three_images),
      image_request (js ''sk-test'') (JString (js ''A watercolour cat''))] \<and>
   fetch env_image_empty_message
     (image_request (js ''sk-test'') (JString (js ''A watercolour cat''))) =
     Inr empty_message_error \<and>
   \<not> ok empty_message_error \<and>
   error three_images = js ''stale'' \<and>
   error (after (generateImage env_image_empty_message (js ''sk-test'') three_images)) = []"
proof -
  let ?g = "generateImage env_image_empty_message (js ''sk-test'') three_images"
  have o: "ok (ok_response chat_reply)" "\<not> ok empty_message_error"
    by (simp_all add: ok_def ok_response_def empty_message_error_def)
  have f: "fetch env_image_empty_message
     (vision_request (js ''sk-test'') (uploadedImages three_images) (prompt three_images)) =
     Inr (ok_response chat_reply)"
    "fetch env_image_empty_message
     (image_request (js ''sk-test'') (JString (js ''A watercolour cat''))) =
     Inr empty_message_error"
    by (simp_all add: env_image_empty_message_def fetch_two_step_env)
  have r: "refine_prompt env_image_empty_message (js ''sk-test'') three_images =
      (Inr (JString (js ''A watercolour cat'')),
       [vision_request (js ''sk-test'') (uploadedImages three_images) (prompt three_images)])"
    using f(1) o(1)
    by (simp add: refine_prompt_def Let_def ok_response_def chat_reply_def js_def)
  have s: "synthesize env_image_empty_message (js ''sk-test'')
        (JString (js ''A watercolour cat'')) =
      (Inl (Thrown_Error []),
       [image_request (js ''sk-test'') (JString (js ''A watercolour cat''))])"
    using f(2) o(2)
    by (simp add: synthesize_def Let_def empty_message_error_def error_message_of_def
        throw_new_Error_def)
  have g: "issued ?g =
       [vision_request (js ''sk-test'') (uploadedImages three_images) (prompt three_images),
        image_request (js ''sk-test'') (JString (js ''A watercolour cat''))] \<and>
     error (after ?g) = []"
    using three_images_precondition
    by (simp add: generateImage_def try_block_def r s catch_message_def Let_def)
  have old: "error three_images = js ''stale''"
    by (simp add: three_images_def)
  from three_images_precondition o f old g show ?thesis
    by simp
qed

end
